theory Spec2Isabelle
  imports Main "HOL-Library.AList" "HOL-Library.Sublist"
begin

section \<open>JavaScript values\<close>

text \<open>
  The values that flow through the dispatcher: parameters, phase outputs and results.
  Numbers are the integers (no NaN, no infinities, no fractions); a string is a list of
  characters, one per code unit, so \<open>length\<close> is JavaScript's \<open>.length\<close> on text
  whose code units fit a byte. An object is an association list in insertion order.
\<close>

datatype jsval =
    JUndefined
  | JNull
  | JBool bool
  | JNum int
  | JStr string
  | JArr "jsval list"
  | JObj "(string \<times> jsval) list"

datatype error = Error string | TypeError string

text \<open>ToBoolean: what \<open>if (v)\<close>, \<open>!v\<close> and \<open>v || d\<close> test.\<close>

fun truthy :: "jsval \<Rightarrow> bool" where
  "truthy JUndefined = False"
| "truthy JNull = False"
| "truthy (JBool b) = b"
| "truthy (JNum n) = (n \<noteq> 0)"
| "truthy (JStr s) = (s \<noteq> [])"
| "truthy (JArr xs) = True"
| "truthy (JObj kvs) = True"

definition js_or :: "jsval \<Rightarrow> jsval \<Rightarrow> jsval" where
  "js_or a b = (if truthy a then a else b)"

text \<open>Property read \<open>o.k\<close> (undefined when absent), write \<open>o.k = v\<close> and \<open>delete o.k\<close>.\<close>

definition obj_get :: "(string \<times> jsval) list \<Rightarrow> string \<Rightarrow> jsval" where
  "obj_get kvs k = (case map_of kvs k of None \<Rightarrow> JUndefined | Some v \<Rightarrow> v)"

definition obj_set :: "(string \<times> jsval) list \<Rightarrow> string \<Rightarrow> jsval \<Rightarrow> (string \<times> jsval) list" where
  "obj_set kvs k v = AList.update k v kvs"

definition obj_delete :: "(string \<times> jsval) list \<Rightarrow> string \<Rightarrow> (string \<times> jsval) list" where
  "obj_delete kvs k = AList.delete k kvs"

definition startsWith :: "string \<Rightarrow> string \<Rightarrow> bool" where
  "startsWith s p = (take (length p) s = p)"

definition endsWith :: "string \<Rightarrow> string \<Rightarrow> bool" where
  "endsWith s p = (length p \<le> length s \<and> drop (length s - length p) s = p)"

text \<open>Upper case of one character, for the ASCII letters.\<close>

definition toUpperCase_char :: "char \<Rightarrow> char" where
  "toUpperCase_char c =
     (let n = (of_char c :: nat) in if 97 \<le> n \<and> n \<le> 122 then char_of (n - 32) else c)"

definition toUpperCase :: "string \<Rightarrow> string" where
  "toUpperCase s = map toUpperCase_char s"

text \<open>Decimal digits of a number, as a template literal prints an integer.\<close>

fun show_nat :: "nat \<Rightarrow> string" where
  "show_nat n =
     (if n < 10 then [char_of (48 + n)] else show_nat (n div 10) @ [char_of (48 + n mod 10)])"

declare show_nat.simps [simp del]

definition show_int :: "int \<Rightarrow> string" where
  "show_int i = (if i < 0 then ''-'' @ show_nat (nat (- i)) else show_nat (nat i))"

text \<open>\<open>Array.prototype.join\<close> on strings.\<close>

fun join_strings :: "string \<Rightarrow> string list \<Rightarrow> string" where
  "join_strings sep [] = []"
| "join_strings sep [x] = x"
| "join_strings sep (x # y # ys) = x @ sep @ join_strings sep (y # ys)"

text \<open>
  ToString, as a template literal and \<open>join\<close> apply it: an array joins its elements with
  commas, printing null and undefined elements as nothing.
\<close>

fun ToString :: "jsval \<Rightarrow> string" where
  "ToString JUndefined = ''undefined''"
| "ToString JNull = ''null''"
| "ToString (JBool b) = (if b then ''true'' else ''false'')"
| "ToString (JNum n) = show_int n"
| "ToString (JStr s) = s"
| "ToString (JArr xs) =
     join_strings '',''
       (map (\<lambda>x. if x = JUndefined \<or> x = JNull then [] else ToString x) xs)"
| "ToString (JObj kvs) = ''[object Object]''"

definition js_join :: "string \<Rightarrow> jsval list \<Rightarrow> string" where
  "js_join sep xs =
     join_strings sep (map (\<lambda>x. if x = JUndefined \<or> x = JNull then [] else ToString x) xs)"

text \<open>\<open>s.split(sep)\<close> for a separator of one character.\<close>

fun split_on :: "char \<Rightarrow> string \<Rightarrow> string list" where
  "split_on sep [] = [[]]"
| "split_on sep (c # cs) =
     (if c = sep then [] # split_on sep cs
      else (case split_on sep cs of
              piece # pieces \<Rightarrow> (c # piece) # pieces
            | [] \<Rightarrow> [[c]]))"

text \<open>\<open>s.trim()\<close>: white space and line terminators among the byte-sized code units.\<close>

definition is_space :: "char \<Rightarrow> bool" where
  "is_space c = (of_char c \<in> {9::nat, 10, 11, 12, 13, 32, 160})"

definition trim :: "string \<Rightarrow> string" where
  "trim s = rev (dropWhile is_space (rev (dropWhile is_space s)))"

text \<open>\<open>s.replace(p, r)\<close> with a string pattern: the first occurrence only.\<close>

fun replace_first :: "string \<Rightarrow> string \<Rightarrow> string \<Rightarrow> string" where
  "replace_first [] p r = (if p = [] then r else [])"
| "replace_first (c # cs) p r =
     (if startsWith (c # cs) p then r @ drop (length p) (c # cs)
      else c # replace_first cs p r)"

text \<open>
  Built-ins of the JavaScript runtime that the model takes as given: the number a
  string converts to (\<open>None\<close> for NaN) and \<open>JSON.stringify(v, null, 2)\<close>.
\<close>

record runtime =
  StringToNumber :: "string \<Rightarrow> int option"
  JSON_stringify :: "jsval \<Rightarrow> string"

fun ToNumber :: "runtime \<Rightarrow> jsval \<Rightarrow> int option" where
  "ToNumber rt JUndefined = None"
| "ToNumber rt JNull = Some 0"
| "ToNumber rt (JBool b) = Some (if b then 1 else 0)"
| "ToNumber rt (JNum n) = Some n"
| "ToNumber rt (JStr s) = StringToNumber rt s"
| "ToNumber rt v = StringToNumber rt (ToString v)"

section \<open>The state a dispatch reads and writes\<close>

text \<open>
  The file system: regular files with their text, and the directories that exist.
  Paths are compared as strings.
\<close>

record filesystem =
  files :: "(string \<times> string) list"
  dirs :: "string list"

text \<open>
  \<open>path.dirname\<close> of Node's posix paths: trailing slashes and the last component are
  dropped; a path with no directory part gives \<open>/\<close> when it starts at the root and
  \<open>.\<close> otherwise.
\<close>

definition path_dirname :: "string \<Rightarrow> string" where
  "path_dirname p =
     (if p = [] then ''.''
      else let r = dropWhile (\<lambda>c. c \<noteq> CHR ''/'')
                     (dropWhile (\<lambda>c. c = CHR ''/'') (rev (tl p)))
           in if r = [] then (if hd p = CHR ''/'' then ''/'' else ''.'')
              else if hd p = CHR ''/'' \<and> length r = 1 then ''//''
              else take (length r) p)"

text \<open>\<open>path.join\<close> of components that need no normalising.\<close>

definition path_join :: "string list \<Rightarrow> string" where
  "path_join parts = join_strings ''/'' parts"

definition existsSync :: "filesystem \<Rightarrow> string \<Rightarrow> bool" where
  "existsSync f p =
     (p \<in> fst ` set (files f) \<or> p \<in> set (dirs f) \<or> p = ''/'' \<or> p = ''.'')"

definition is_directory :: "filesystem \<Rightarrow> string \<Rightarrow> bool" where
  "is_directory f p = (p \<in> set (dirs f) \<or> p = ''/'' \<or> p = ''.'')"

text \<open>The directory and the directories above it, nearest first.\<close>

definition ancestors :: "string \<Rightarrow> string list" where
  "ancestors d = map (\<lambda>k. (path_dirname ^^ k) d) [0 ..< Suc (length d)]"

text \<open>
  \<open>fs.mkdirSync(d, {recursive: true})\<close> creates what is missing of the directory and
  the ones above it, and fails where one of them is a regular file.
\<close>

definition mkdirSync :: "filesystem \<Rightarrow> string \<Rightarrow> error + filesystem" where
  "mkdirSync f d =
     (if list_ex (\<lambda>a. a \<in> fst ` set (files f)) (ancestors d)
      then Inl (Error ''ENOTDIR: not a directory, mkdir'')
      else Inr (f \<lparr> dirs := dirs f @
                  remdups (filter (\<lambda>a. \<not> is_directory f a) (ancestors d)) \<rparr>))"

text \<open>
  \<open>fs.writeFileSync(p, text)\<close> creates or replaces the regular file; it fails on a
  directory, under a regular file and under a directory that does not exist.
\<close>

definition writeFileSync :: "filesystem \<Rightarrow> string \<Rightarrow> string \<Rightarrow> error + filesystem" where
  "writeFileSync f p s =
     (if is_directory f p then Inl (Error ''EISDIR: illegal operation on a directory, open'')
      else if path_dirname p \<in> fst ` set (files f)
      then Inl (Error ''ENOTDIR: not a directory, open'')
      else if \<not> is_directory f (path_dirname p)
      then Inl (Error ''ENOENT: no such file or directory, open'')
      else Inr (f \<lparr> files := AList.update p s (files f) \<rparr>))"

definition readFileSync :: "filesystem \<Rightarrow> string \<Rightarrow> error + string" where
  "readFileSync f p =
     (case map_of (files f) p of
        Some s \<Rightarrow> Inr s
      | None \<Rightarrow>
          if is_directory f p then Inl (Error ''EISDIR: illegal operation on a directory, read'')
          else Inl (Error ''ENOENT: no such file or directory, open''))"

text \<open>\<open>fs.readdirSync(d)\<close>: the names directly under the directory.\<close>

definition readdirSync :: "filesystem \<Rightarrow> string \<Rightarrow> error + string list" where
  "readdirSync f d =
     (if is_directory f d
      then Inr (map (\<lambda>p. drop (Suc (length d)) p)
                  (filter (\<lambda>p. path_dirname p = d \<and> startsWith p (d @ ''/''))
                     (map fst (files f) @ dirs f)))
      else if d \<in> fst ` set (files f) then Inl (Error ''ENOTDIR: not a directory, scandir'')
      else Inl (Error ''ENOENT: no such file or directory, scandir''))"

text \<open>
  What outlives a dispatch: the Orchestrator's \<open>settings\<close> (absent in the Orchestrator
  of \<open>core/orchestrator.js\<close>, which never creates them), its \<open>context\<close> array (the
  Global Context Store, here \<open>store\<close>), the file system, and the reading
  \<open>new Date().toISOString()\<close> gives during the dispatch.
\<close>

record world =
  settings :: "(string \<times> jsval) list option"
  store :: "jsval list"
  fs :: filesystem
  now :: string

text \<open>
  The ExecutionContext object \<open>{command, params, globalContext, ...globalParams}\<close> with
  every property a phase of the repository reads or adds. \<open>context'\<close> is its property
  \<open>context\<close>; \<open>phaseResults\<close> is \<open>None\<close> until a pipeline creates the object.
\<close>

record ExecutionContext =
  command :: string
  params :: "(string \<times> jsval) list"
  globalContext :: jsval
  save :: jsval
  context' :: jsval
  args :: jsval
  phaseResults :: "(string \<times> jsval) list option"
  result :: jsval
  personality :: jsval
  sourceContent :: jsval
  previousCritique :: jsval
  critique :: jsval

text \<open>
  A phase method is asynchronous code over the context and the shared state. It returns
  a value or throws; what it changed before throwing stays changed.
\<close>

type_synonym handler =
  "ExecutionContext \<Rightarrow> world \<Rightarrow> (error + jsval) \<times> ExecutionContext \<times> world"

definition returns :: "jsval \<Rightarrow> handler" where
  "returns v ctx w = (Inr v, ctx, w)"

definition throws :: "error \<Rightarrow> handler" where
  "throws e ctx w = (Inl e, ctx, w)"

text \<open>
  A workflow object: \<open>this.phases\<close>, \<open>this.metadata.supportedCommands\<close> and the phase
  methods found on it by name (its own and the inherited ones).
\<close>

record workflow =
  phases :: "string list"
  supportedCommands :: "string list"
  methods :: "string \<Rightarrow> handler option"

section \<open>BaseWorkflow (hooks/workflows/base.js)\<close>

definition base_executeInitializationPhase :: handler where
  "base_executeInitializationPhase = returns (JObj [(''status'', JStr ''initialized'')])"

text \<open>
  \<open>v.length > n\<close>: the length of a string or an array; of an object, its property
  \<open>length\<close> converted to a number. Any other value has no \<open>length\<close>; undefined
  converts to NaN, and a comparison with NaN is false.
\<close>

fun length_exceeds :: "runtime \<Rightarrow> jsval \<Rightarrow> nat \<Rightarrow> bool" where
  "length_exceeds rt (JStr s) n = (length s > n)"
| "length_exceeds rt (JArr xs) n = (length xs > n)"
| "length_exceeds rt (JObj kvs) n =
     (case ToNumber rt (obj_get kvs ''length'') of Some k \<Rightarrow> k > int n | None \<Rightarrow> False)"
| "length_exceeds rt _ n = False"

text \<open>
  The two checks on the global parameters, in the order the method makes them. A
  truthy \<open>save\<close> that is no string has no \<open>startsWith\<close>.
\<close>

definition parameters_check :: "runtime \<Rightarrow> ExecutionContext \<Rightarrow> error option" where
  "parameters_check rt ctx =
     (if truthy (save ctx) \<and> (case save ctx of JStr s \<Rightarrow> False | _ \<Rightarrow> True)
      then Some (TypeError ''context.save.startsWith is not a function'')
      else if truthy (save ctx) \<and>
              (case save ctx of
                 JStr s \<Rightarrow> \<not> startsWith s ''/'' \<or> \<not> endsWith s ''.json''
               | _ \<Rightarrow> False)
      then Some (Error ''Save path must be absolute and end with .json'')
      else if truthy (context' ctx) \<and> length_exceeds rt (context' ctx) 1000
      then Some (Error ''Context must be less than 1000 characters'')
      else None)"

definition base_executeParametersPhase :: "runtime \<Rightarrow> handler" where
  "base_executeParametersPhase rt ctx w =
     (case parameters_check rt ctx of
        Some e \<Rightarrow> throws e ctx w
      | None \<Rightarrow>
          returns (JObj [(''status'', JStr ''parameters_processed''),
                         (''params'', JObj (params ctx))]) ctx w)"

definition base_executeWorkflowPhase :: handler where
  "base_executeWorkflowPhase = returns (JObj [(''status'', JStr ''workflow_completed'')])"

definition base_executeValidationPhase :: handler where
  "base_executeValidationPhase = returns (JObj [(''status'', JStr ''validated'')])"

definition base_executeOutputPhase :: handler where
  "base_executeOutputPhase = returns (JObj [(''status'', JStr ''output_formatted'')])"

definition standard_phases :: "string list" where
  "standard_phases =
     [''initialization'', ''parameters'', ''workflow'', ''validation'', ''output'']"

definition BaseWorkflow :: "runtime \<Rightarrow> workflow" where
  "BaseWorkflow rt =
     \<lparr> phases = standard_phases,
       supportedCommands = [],
       methods = map_of
         [(''executeInitializationPhase'', base_executeInitializationPhase),
          (''executeParametersPhase'', base_executeParametersPhase rt),
          (''executeWorkflowPhase'', base_executeWorkflowPhase),
          (''executeValidationPhase'', base_executeValidationPhase),
          (''executeOutputPhase'', base_executeOutputPhase)] \<rparr>"

text \<open>
  \<open>class C extends B\<close>: the constructor replaces the supported commands, and the methods
  the class body defines hide the inherited ones of the same name.
\<close>

definition extends :: "workflow \<Rightarrow> string list \<Rightarrow> (string \<times> handler) list \<Rightarrow> workflow" where
  "extends base cmds body =
     base \<lparr> supportedCommands := cmds, methods := methods base ++ map_of body \<rparr>"

definition isSupportedCommand :: "workflow \<Rightarrow> string \<Rightarrow> bool" where
  "isSupportedCommand wfl cmd = (cmd \<in> set (supportedCommands wfl))"

text \<open>
  \<open>executePhase\<close> finds the method by its computed name,
  \<open>execute\<close> + the phase with its first letter in upper case + \<open>Phase\<close>.
\<close>

definition methodName :: "string \<Rightarrow> string" where
  "methodName phase = ''execute'' @ toUpperCase (take 1 phase) @ drop 1 phase @ ''Phase''"

definition executePhase :: "workflow \<Rightarrow> string \<Rightarrow> handler" where
  "executePhase wfl phase ctx w =
     (case methods wfl (methodName phase) of
        Some h \<Rightarrow> h ctx w
      | None \<Rightarrow> returns (JObj [(''status'', JStr ''completed''), (''phase'', JStr phase)]) ctx w)"

text \<open>
  The loop of \<open>executePipeline\<close>. Beside the outcome it gives the phases it announced
  on the console (\<open>Phase: \<close> and the name, printed before \<open>executePhase\<close> is called), in
  order. Storing a phase result into \<open>context.phaseResults\<close> throws a TypeError when a
  handler has removed that object.
\<close>

fun runPhases ::
  "workflow \<Rightarrow> string list \<Rightarrow> ExecutionContext \<Rightarrow> world \<Rightarrow>
     string list \<times> error option \<times> ExecutionContext \<times> world" where
  "runPhases wfl [] ctx w = ([], None, ctx, w)"
| "runPhases wfl (phase # rest) ctx w =
     (case executePhase wfl phase ctx w of
        (Inl e, ctx1, w1) \<Rightarrow> ([phase], Some e, ctx1, w1)
      | (Inr r, ctx1, w1) \<Rightarrow>
          (case phaseResults ctx1 of
             None \<Rightarrow>
               ([phase], Some (TypeError ''Cannot set properties of undefined''), ctx1, w1)
           | Some prs \<Rightarrow>
               (case runPhases wfl rest (ctx1 \<lparr> phaseResults := Some (obj_set prs phase r) \<rparr>) w1 of
                  (tr, st, ctx2, w2) \<Rightarrow> (phase # tr, st, ctx2, w2))))"

definition phaseResults_value :: "ExecutionContext \<Rightarrow> jsval" where
  "phaseResults_value ctx = (case phaseResults ctx of None \<Rightarrow> JUndefined | Some prs \<Rightarrow> JObj prs)"

definition executePipeline ::
  "workflow \<Rightarrow> ExecutionContext \<Rightarrow> world \<Rightarrow>
     string list \<times> (error + jsval) \<times> ExecutionContext \<times> world" where
  "executePipeline wfl ctx w =
     (case runPhases wfl (phases wfl) (ctx \<lparr> phaseResults := Some [] \<rparr>) w of
        (tr, Some e, ctx1, w1) \<Rightarrow> (tr, Inl e, ctx1, w1)
      | (tr, None, ctx1, w1) \<Rightarrow>
          (tr, Inr (js_or (result ctx1) (phaseResults_value ctx1)), ctx1, w1))"

text \<open>\<open>execute\<close> logs and rethrows what the pipeline throws.\<close>

definition execute ::
  "workflow \<Rightarrow> ExecutionContext \<Rightarrow> world \<Rightarrow>
     string list \<times> (error + jsval) \<times> ExecutionContext \<times> world" where
  "execute wfl ctx w = executePipeline wfl ctx w"

text \<open>
  \<open>validateWithRules(ruleSets, data)\<close> of base.js is a stub: it accepts whatever it is
  given.
\<close>

definition validateWithRules :: "string list \<Rightarrow> jsval" where
  "validateWithRules ruleSets = JObj [(''valid'', JBool True), (''errors'', JArr [])]"

text \<open>\<open>readFile(path)\<close> of base.js is a stub as well.\<close>

definition readFile_stub :: "jsval \<Rightarrow> jsval" where
  "readFile_stub path = JStr ''Sample file content''"

section \<open>MessageWorkflow (hooks/workflows/message.js)\<close>

definition message_handleNewMessage :: handler where
  "message_handleNewMessage ctx w =
     returns
       (JObj [(''success'', JBool True),
              (''action'', JStr ''created''),
              (''message'',
                 JObj [(''content'', obj_get (params ctx) ''message''),
                       (''to'', obj_get (params ctx) ''to''),
                       (''timestamp'', JStr (now w)),
                       (''formattedContent'',
                          JStr (''Message: '' @ ToString (obj_get (params ctx) ''message'') @
                                '' (to: '' @ ToString (obj_get (params ctx) ''to'') @ '')''))])])
       ctx w"

text \<open>
  The loop \<open>for (let i = 0; i < count; i++)\<close> compares numbers, so \<open>count\<close> is
  converted; it runs no round when the conversion gives NaN or nothing positive.
\<close>

definition sample_message :: "string \<Rightarrow> nat \<Rightarrow> jsval" where
  "sample_message t i =
     JObj [(''id'', JNum (int i + 1)),
           (''content'', JStr (''Sample message '' @ show_int (int i + 1))),
           (''timestamp'', JStr t)]"

definition message_handleReadMessages :: "runtime \<Rightarrow> handler" where
  "message_handleReadMessages rt ctx w =
     (let count = js_or (obj_get (params ctx) ''count'') (JNum 5);
          rounds = (case ToNumber rt count of None \<Rightarrow> 0 | Some k \<Rightarrow> nat k)
      in returns
           (JObj [(''success'', JBool True),
                  (''action'', JStr ''read''),
                  (''messages'', JArr (map (sample_message (now w)) [0 ..< rounds])),
                  (''count'', count)])
           ctx w)"

definition message_executeWorkflowPhase :: "runtime \<Rightarrow> handler" where
  "message_executeWorkflowPhase rt ctx w =
     (if command ctx = ''message:new'' then message_handleNewMessage ctx w
      else if command ctx = ''message:read'' then message_handleReadMessages rt ctx w
      else returns JUndefined ctx w)"

definition MessageWorkflow :: "runtime \<Rightarrow> workflow" where
  "MessageWorkflow rt =
     extends (BaseWorkflow rt) [''message:new'', ''message:read'']
       [(''executeWorkflowPhase'', message_executeWorkflowPhase rt)]"

section \<open>MessageWorkflow, the copy with positional arguments (unnamed/part_009)\<close>

definition message_required :: string where
  "message_required =
     ''Message content is required. Use --message '' @ [CHR 0x22] @ ''your message'' @
     [CHR 0x22] @ '' or provide it as a positional argument.''"

text \<open>
  \<open>context.args.join(' ')\<close> is reached when \<open>args\<close> is truthy and its length is
  positive; only an array has \<open>join\<close>.
\<close>

definition message009_handleNewMessage :: "runtime \<Rightarrow> handler" where
  "message009_handleNewMessage rt ctx w =
     (let given = obj_get (params ctx) ''message'';
          positional = (\<not> truthy given \<and> truthy (args ctx) \<and> length_exceeds rt (args ctx) 0)
      in if positional \<and> (case args ctx of JArr xs \<Rightarrow> False | _ \<Rightarrow> True)
         then throws (TypeError ''context.args.join is not a function'') ctx w
         else
           let messageContent =
                 (if positional
                  then (case args ctx of JArr xs \<Rightarrow> JStr (js_join '' '' xs) | _ \<Rightarrow> given)
                  else given)
           in if \<not> truthy messageContent then throws (Error message_required) ctx w
              else
                let targetAgent = js_or (obj_get (params ctx) ''to'') (JStr ''discussion-moderator'')
                in returns
                     (JObj [(''success'', JBool True),
                            (''action'', JStr ''created''),
                            (''message'',
                               JObj [(''content'', messageContent),
                                     (''to'', targetAgent),
                                     (''timestamp'', JStr (now w)),
                                     (''formattedContent'',
                                        JStr (''Message: '' @ ToString messageContent @
                                              '' (to: '' @ ToString targetAgent @ '')''))])])
                     ctx w)"

definition message009_executeWorkflowPhase :: "runtime \<Rightarrow> handler" where
  "message009_executeWorkflowPhase rt ctx w =
     (if command ctx = ''message:new'' then message009_handleNewMessage rt ctx w
      else if command ctx = ''message:read'' then message_handleReadMessages rt ctx w
      else returns JUndefined ctx w)"

definition message009_executeValidationPhase :: handler where
  "message009_executeValidationPhase ctx w =
     (let validation = validateWithRules [''message'']
      in case validation of
           JObj v \<Rightarrow>
             if \<not> truthy (obj_get v ''valid'')
             then throws
                    (Error (''Validation failed: '' @
                       (case obj_get v ''errors'' of JArr es \<Rightarrow> js_join '', '' es | _ \<Rightarrow> [])))
                    ctx w
             else returns validation ctx w
         | _ \<Rightarrow> throws (TypeError ''Cannot read properties of undefined'') ctx w)"

text \<open>
  For \<open>message:new\<close> the output phase builds the arguments of
  \<open>this.executeUtilities\<close> from \<open>context.result.message\<close> and then calls it. No phase
  of this class sets \<open>context.result\<close>, and BaseWorkflow has no method
  \<open>executeUtilities\<close>: each way it is a TypeError.
\<close>

definition message009_executeOutputPhase :: handler where
  "message009_executeOutputPhase ctx w =
     (if command ctx = ''message:new''
      then (case result ctx of
              JUndefined \<Rightarrow>
                throws (TypeError ''Cannot read properties of undefined (reading message)'') ctx w
            | JNull \<Rightarrow>
                throws (TypeError ''Cannot read properties of null (reading message)'') ctx w
            | JObj r \<Rightarrow>
                (if obj_get r ''message'' = JUndefined \<or> obj_get r ''message'' = JNull
                 then throws (TypeError ''Cannot read properties of undefined (reading content)'')
                        ctx w
                 else throws (TypeError ''this.executeUtilities is not a function'') ctx w)
            | _ \<Rightarrow>
                throws (TypeError ''Cannot read properties of undefined (reading content)'') ctx w)
      else returns (result ctx) ctx w)"

definition MessageWorkflow_009 :: "runtime \<Rightarrow> workflow" where
  "MessageWorkflow_009 rt =
     extends (BaseWorkflow rt) [''message:new'', ''message:read'']
       [(''executeWorkflowPhase'', message009_executeWorkflowPhase rt),
        (''executeValidationPhase'', message009_executeValidationPhase),
        (''executeOutputPhase'', message009_executeOutputPhase)]"

section \<open>MetaWorkflow (hooks/workflows/meta.js)\<close>

definition context_entry :: "string \<Rightarrow> jsval \<Rightarrow> string \<Rightarrow> jsval" where
  "context_entry cmd content t =
     JObj [(''command'', JStr cmd), (''content'', content), (''timestamp'', JStr t)]"

definition meta_handleContext :: handler where
  "meta_handleContext ctx w =
     (if truthy (obj_get (params ctx) ''add'')
      then returns
             (JObj [(''success'', JBool True),
                    (''action'', JStr ''context_added''),
                    (''content'', obj_get (params ctx) ''add'')])
             ctx
             (w \<lparr> store := store w @
                     [context_entry (command ctx) (obj_get (params ctx) ''add'') (now w)] \<rparr>)
      else if truthy (obj_get (params ctx) ''list'')
      then returns
             (JObj [(''success'', JBool True),
                    (''action'', JStr ''context_listed''),
                    (''context'', JArr (store w))])
             ctx w
      else if truthy (obj_get (params ctx) ''clear'')
      then returns
             (JObj [(''success'', JBool True),
                    (''action'', JStr ''context_cleared''),
                    (''clearedCount'', JNum (int (length (store w))))])
             ctx (w \<lparr> store := [] \<rparr>)
      else throws (Error ''Specify --add, --list, or --clear for meta:context command'') ctx w)"

definition meta_executeWorkflowPhase :: handler where
  "meta_executeWorkflowPhase ctx w =
     (if command ctx = ''meta:context'' then meta_handleContext ctx w
      else returns JUndefined ctx w)"

definition MetaWorkflow :: "runtime \<Rightarrow> workflow" where
  "MetaWorkflow rt =
     extends (BaseWorkflow rt) [''meta:context'']
       [(''executeWorkflowPhase'', meta_executeWorkflowPhase)]"

section \<open>OutputWorkflow (hooks/workflows/output.js)\<close>

definition validLevels :: "jsval list" where
  "validLevels = [JStr ''low'', JStr ''medium'', JStr ''high'', JStr ''off'']"

definition descriptions :: "(string \<times> jsval) list" where
  "descriptions =
     [(''low'', JStr ''~140 characters (concise)''),
      (''medium'', JStr ''~520 characters (balanced)''),
      (''high'', JStr ''~740 characters (detailed)''),
      (''off'', JStr ''unrestricted length'')]"

text \<open>\<open>this.orchestrator.settings = this.orchestrator.settings || {}\<close>\<close>

definition settings_or_empty :: "world \<Rightarrow> (string \<times> jsval) list" where
  "settings_or_empty w = (case settings w of None \<Rightarrow> [] | Some s \<Rightarrow> s)"

definition output_handleVerbosity :: handler where
  "output_handleVerbosity ctx w =
     (let level = obj_get (params ctx) ''level''
      in if level \<notin> set validLevels
         then throws
                (Error (''Invalid verbosity level. Valid options: '' @ js_join '', '' validLevels))
                ctx w
         else returns
                (JObj [(''success'', JBool True),
                       (''action'', JStr ''set_verbosity''),
                       (''level'', level),
                       (''description'', obj_get descriptions (ToString level))])
                ctx
                (w \<lparr> settings := Some (obj_set (settings_or_empty w) ''verbosity'' level) \<rparr>))"

definition validTypes :: "jsval list" where
  "validTypes = [JStr ''json'', JStr ''markdown'', JStr ''text'']"

definition output_handleFormat :: handler where
  "output_handleFormat ctx w =
     (let type = obj_get (params ctx) ''type''
      in if type \<notin> set validTypes
         then throws
                (Error (''Invalid format type. Valid options: '' @ js_join '', '' validTypes))
                ctx w
         else returns
                (JObj [(''success'', JBool True),
                       (''action'', JStr ''set_format''),
                       (''type'', type)])
                ctx
                (w \<lparr> settings := Some (obj_set (settings_or_empty w) ''format'' type) \<rparr>))"

definition output_executeWorkflowPhase :: handler where
  "output_executeWorkflowPhase ctx w =
     (if command ctx = ''output:verbosity'' then output_handleVerbosity ctx w
      else if command ctx = ''output:format'' then output_handleFormat ctx w
      else returns JUndefined ctx w)"

definition OutputWorkflow :: "runtime \<Rightarrow> workflow" where
  "OutputWorkflow rt =
     extends (BaseWorkflow rt) [''output:verbosity'', ''output:format'']
       [(''executeWorkflowPhase'', output_executeWorkflowPhase)]"

section \<open>AgentWorkflow (unnamed/part_010)\<close>

definition default_settings :: "(string \<times> jsval) list" where
  "default_settings =
     [(''activeAgent'', JStr ''discussion-moderator''),
      (''verbosity'', JStr ''off''),
      (''format'', JStr ''text'')]"

definition agent_handleSwitch :: handler where
  "agent_handleSwitch ctx w =
     (let agentName = obj_get (params ctx) ''name''
      in if \<not> truthy agentName
         then throws
                (Error (''Agent name is required. Use --name '' @ [CHR 0x22] @ ''agent-name'' @
                        [CHR 0x22]))
                ctx w
         else if \<not> existsSync (fs w)
                     (path_join [''.system'', ''agents'', ToString agentName @ ''.md''])
         then throws
                (Error (''Agent '' @ [CHR 0x22] @ ToString agentName @ [CHR 0x22] @ '' not found''))
                ctx w
         else returns
                (JObj [(''success'', JBool True),
                       (''action'', JStr ''switched_agent''),
                       (''agent'', agentName)])
                ctx
                (w \<lparr> settings := Some (obj_set (settings_or_empty w) ''activeAgent'' agentName) \<rparr>))"

definition agent_handleStatus :: handler where
  "agent_handleStatus ctx w =
     (let s = settings_or_empty w
      in returns
           (JObj [(''success'', JBool True),
                  (''action'', JStr ''status''),
                  (''activeAgent'', js_or (obj_get s ''activeAgent'') (JStr ''discussion-moderator'')),
                  (''verbosity'', js_or (obj_get s ''verbosity'') (JStr ''off'')),
                  (''format'', js_or (obj_get s ''format'') (JStr ''text''))])
           ctx w)"

text \<open>
  \<open>content.match(/description: (.+)/)\<close>: the leftmost place where the text
  \<open>description: \<close> is followed by a character that ends no line; the group runs to
  the end of that line.
\<close>

definition line_end :: "char \<Rightarrow> bool" where
  "line_end c = (of_char c \<in> {10::nat, 13})"

fun match_description :: "string \<Rightarrow> string option" where
  "match_description [] = None"
| "match_description (c # cs) =
     (let after = drop (length ''description: '') (c # cs)
      in if startsWith (c # cs) ''description: '' \<and> after \<noteq> [] \<and> \<not> line_end (hd after)
         then Some (takeWhile (\<lambda>x. \<not> line_end x) after)
         else match_description cs)"

text \<open>One round of the \<open>forEach\<close> over the directory listing.\<close>

fun agent_list_entries :: "filesystem \<Rightarrow> string \<Rightarrow> string list \<Rightarrow> error + jsval list" where
  "agent_list_entries f dir [] = Inr []"
| "agent_list_entries f dir (file # others) =
     (if endsWith file ''.md''
      then (case readFileSync f (path_join [dir, file]) of
              Inl e \<Rightarrow> Inl e
            | Inr content \<Rightarrow>
                (case agent_list_entries f dir others of
                   Inl e \<Rightarrow> Inl e
                 | Inr agents \<Rightarrow>
                     Inr (JObj [(''name'', JStr (replace_first file ''.md'' [])),
                                (''description'',
                                   JStr (case match_description content of
                                           Some d \<Rightarrow> d
                                         | None \<Rightarrow> ''No description''))] # agents)))
      else agent_list_entries f dir others)"

definition agent_handleList :: handler where
  "agent_handleList ctx w =
     (let agentsDir = path_join [''.system'', ''agents'']
      in case (if existsSync (fs w) agentsDir
               then (case readdirSync (fs w) agentsDir of
                       Inl e \<Rightarrow> Inl e
                     | Inr names \<Rightarrow> agent_list_entries (fs w) agentsDir names)
               else Inr [])
         of Inl e \<Rightarrow> throws e ctx w
          | Inr agents \<Rightarrow>
              returns
                (JObj [(''success'', JBool True),
                       (''action'', JStr ''list_agents''),
                       (''agents'', JArr agents)])
                ctx w)"

definition agent_handleReset :: handler where
  "agent_handleReset ctx w =
     returns
       (JObj [(''success'', JBool True),
              (''action'', JStr ''reset''),
              (''message'', JStr ''Agent settings reset to defaults'')])
       ctx (w \<lparr> settings := Some default_settings \<rparr>)"

definition agent_executeWorkflowPhase :: handler where
  "agent_executeWorkflowPhase ctx w =
     (if command ctx = ''agent:switch'' then agent_handleSwitch ctx w
      else if command ctx = ''agent:status'' then agent_handleStatus ctx w
      else if command ctx = ''agent:list'' then agent_handleList ctx w
      else if command ctx = ''agent:reset'' then agent_handleReset ctx w
      else returns JUndefined ctx w)"

definition AgentWorkflow :: "runtime \<Rightarrow> workflow" where
  "AgentWorkflow rt =
     extends (BaseWorkflow rt) [''agent:switch'', ''agent:status'', ''agent:list'', ''agent:reset'']
       [(''executeWorkflowPhase'', agent_executeWorkflowPhase)]"

section \<open>SystemWorkflow (the class that follows the Orchestrator in core/orchestrator.js)\<close>

definition system_handleSystemOn :: handler where
  "system_handleSystemOn ctx w =
     returns
       (JObj [(''success'', JBool True),
              (''action'', JStr ''initialized''),
              (''status'',
                 JObj [(''initialized'', JBool True),
                       (''timestamp'', JStr (now w)),
                       (''agents_loaded'', JNum 1),
                       (''workflows_loaded'', JNum 2),
                       (''commands_available'', JNum 5),
                       (''templates_loaded'', JNum 1),
                       (''utilities_loaded'', JNum 11)]),
              (''message'', JStr ''Agent Forger system initialized successfully'')])
       ctx w"

definition system_handleSystemHealth :: handler where
  "system_handleSystemHealth ctx w =
     (let verbose = js_or (obj_get (params ctx) ''verbose'') (JBool False);
          healthStatus =
            [(''overall'', JStr ''healthy''),
             (''timestamp'', JStr (now w)),
             (''checks'',
                JObj [(''configuration'', JStr ''passed''),
                      (''agents'', JStr ''passed''),
                      (''workflows'', JStr ''passed''),
                      (''commands'', JStr ''passed''),
                      (''filesystem'', JStr ''passed'')])];
          details =
            JObj [(''agents_count'', JNum 1),
                  (''workflows_count'', JNum 2),
                  (''commands_count'', JNum 5),
                  (''system_uptime'', JStr ''simulated''),
                  (''memory_usage'', JStr ''normal'')]
      in returns
           (JObj [(''success'', JBool True),
                  (''action'', JStr ''health_check''),
                  (''status'',
                     JObj (if truthy verbose then obj_set healthStatus ''details'' details
                           else healthStatus)),
                  (''verbose'', verbose)])
           ctx w)"

definition manifest_components :: "(string \<times> jsval list) list" where
  "manifest_components =
     [(''agents'', [JStr ''discussion-moderator'']),
      (''workflows'', [JStr ''message'', JStr ''system'']),
      (''commands'',
         [JStr ''message:new'', JStr ''message:read'', JStr ''system:on'',
          JStr ''system:health'', JStr ''system:manifest'']),
      (''templates'', [JStr ''conversation-thread'']),
      (''utilities'',
         [JStr ''text processing'', JStr ''file operations'', JStr ''system monitoring'',
          JStr ''validation'', JStr ''formatting''])]"

definition manifest_capabilities :: "jsval list" where
  "manifest_capabilities =
     [JStr ''Multi-agent collaboration'', JStr ''Structured AI workflows'',
      JStr ''Quality assurance'', JStr ''Extensible architecture'',
      JStr ''Command-line interface'']"

definition manifest :: "(string \<times> jsval) list" where
  "manifest =
     [(''name'', JStr ''Agent Forger''),
      (''version'', JStr ''1.0.0''),
      (''description'', JStr ''Meta-system for forging AI agents with structured workflows''),
      (''architecture'', JStr ''pipeline-based''),
      (''components'', JObj (map (\<lambda>(k, xs). (k, JArr xs)) manifest_components)),
      (''capabilities'', JArr manifest_capabilities)]"

definition component :: "string \<Rightarrow> jsval list" where
  "component k = (case map_of manifest_components k of None \<Rightarrow> [] | Some xs \<Rightarrow> xs)"

definition newline :: string where
  "newline = [CHR 0x0A]"

definition textManifest :: string where
  "textManifest =
     trim
       (newline @
        ''Agent Forger v'' @ ToString (obj_get manifest ''version'') @ newline @
        ToString (obj_get manifest ''description'') @ newline @
        newline @
        ''Architecture: '' @ ToString (obj_get manifest ''architecture'') @ newline @
        newline @
        ''Components:'' @ newline @
        ''- Agents: '' @ js_join '', '' (component ''agents'') @ newline @
        ''- Workflows: '' @ js_join '', '' (component ''workflows'') @ newline @
        ''- Commands: '' @ show_int (int (length (component ''commands''))) @ '' available'' @
        newline @
        ''- Templates: '' @ js_join '', '' (component ''templates'') @ newline @
        ''- Utilities: '' @ js_join '', '' (component ''utilities'') @ newline @
        newline @
        ''Capabilities:'' @ newline @
        js_join newline (map (\<lambda>cap. JStr (''- '' @ ToString cap)) manifest_capabilities) @
        newline @ ''      '')"

definition system_handleSystemManifest :: handler where
  "system_handleSystemManifest ctx w =
     (let format = js_or (obj_get (params ctx) ''format'') (JStr ''text'')
      in if format = JStr ''json''
         then returns
                (JObj [(''success'', JBool True),
                       (''action'', JStr ''manifest''),
                       (''format'', JStr ''json''),
                       (''data'', JObj manifest)])
                ctx w
         else returns
                (JObj [(''success'', JBool True),
                       (''action'', JStr ''manifest''),
                       (''format'', JStr ''text''),
                       (''data'', JStr textManifest)])
                ctx w)"

definition system_executeWorkflowPhase :: handler where
  "system_executeWorkflowPhase ctx w =
     (if command ctx = ''system:on'' then system_handleSystemOn ctx w
      else if command ctx = ''system:health'' then system_handleSystemHealth ctx w
      else if command ctx = ''system:manifest'' then system_handleSystemManifest ctx w
      else returns JUndefined ctx w)"

definition SystemWorkflow :: "runtime \<Rightarrow> workflow" where
  "SystemWorkflow rt =
     extends (BaseWorkflow rt) [''system:on'', ''system:health'', ''system:manifest'']
       [(''executeWorkflowPhase'', system_executeWorkflowPhase)]"

section \<open>CriticWorkflow (hooks/workflows/critic.js)\<close>

text \<open>
  The initialization phase also calls \<open>loadAgent\<close> and \<open>loadTemplate\<close>, which fill
  two maps on the workflow object; the workflow phase reads them back only to print
  their names. The maps are left out.
\<close>

definition critic_executeInitializationPhase :: handler where
  "critic_executeInitializationPhase ctx w =
     (let pieces = split_on CHR '':'' (command ctx);
          p = (if 1 < length pieces then JStr (pieces ! 1) else JUndefined)
      in returns (JObj [(''status'', JStr ''initialized''), (''personality'', p)])
           (ctx \<lparr> personality := p \<rparr>) w)"

text \<open>
  The parameters phase in its steps: the defaults for \<open>domain\<close> and \<open>audience\<close>; the
  \<open>focus\<close> text split at the commas, each piece trimmed (only a string has \<open>split\<close>);
  then the source, read through \<open>readFile\<close> when it starts with a slash (only a string
  has \<open>startsWith\<close>), and the comparison.
\<close>

definition critic_defaults :: "(string \<times> jsval) list \<Rightarrow> (string \<times> jsval) list" where
  "critic_defaults ps =
     (let ps1 = obj_set ps ''domain'' (js_or (obj_get ps ''domain'') (JStr ''general''))
      in obj_set ps1 ''audience'' (js_or (obj_get ps1 ''audience'') (JStr ''general'')))"

definition critic_focus :: "(string \<times> jsval) list \<Rightarrow> error + (string \<times> jsval) list" where
  "critic_focus ps =
     (case obj_get ps ''focus'' of
        JStr s \<Rightarrow>
          if s \<noteq> []
          then Inr (obj_set ps ''focus'' (JArr (map (\<lambda>f. JStr (trim f)) (split_on CHR '','' s))))
          else Inr ps
      | v \<Rightarrow>
          if truthy v then Inl (TypeError ''context.params.focus.split is not a function'')
          else Inr ps)"

definition critic_executeParametersPhase :: handler where
  "critic_executeParametersPhase ctx w =
     (if \<not> truthy (obj_get (params ctx) ''source'')
      then throws (Error ''Source parameter is required'') ctx w
      else
        (case critic_focus (critic_defaults (params ctx)) of
           Inl e \<Rightarrow> throws e (ctx \<lparr> params := critic_defaults (params ctx) \<rparr>) w
         | Inr ps \<Rightarrow>
             (case obj_get ps ''source'' of
                JStr src \<Rightarrow>
                  returns (JObj [(''status'', JStr ''parameters_processed'')])
                    (ctx \<lparr> params := ps,
                           sourceContent :=
                             (if startsWith src ''/'' then readFile_stub (JStr src)
                              else JStr src),
                           previousCritique :=
                             (if truthy (obj_get ps ''compare'')
                              then readFile_stub (obj_get ps ''compare'')
                              else previousCritique ctx) \<rparr>)
                    w
              | _ \<Rightarrow>
                  throws (TypeError ''context.params.source.startsWith is not a function'')
                    (ctx \<lparr> params := ps \<rparr>) w)))"

text \<open>\<open>generateContent(template, params, agent)\<close> of base.js is a stub.\<close>

definition generateContent :: "jsval \<Rightarrow> jsval" where
  "generateContent contentData =
     JObj [(''metadata'', contentData),
           (''overview'', JStr ''Sample overview of the critique''),
           (''understanding'', JStr ''Sample understanding summary''),
           (''critical_points'', JArr [JStr ''Point 1'', JStr ''Point 2'']),
           (''positive_points'', JArr [JStr ''Positive 1'', JStr ''Positive 2'']),
           (''questions'', JArr [JStr ''Question 1'']),
           (''final_remarks'', JArr [JStr ''Remark 1''])]"

definition critic_executeWorkflowPhase :: handler where
  "critic_executeWorkflowPhase ctx w =
     (let contentData =
            JObj [(''content'', sourceContent ctx),
                  (''domain'', obj_get (params ctx) ''domain''),
                  (''focus'', js_or (obj_get (params ctx) ''focus'') (JArr [])),
                  (''audience'', obj_get (params ctx) ''audience''),
                  (''personality'', personality ctx),
                  (''previousCritique'', js_or (previousCritique ctx) JNull),
                  (''userContext'', js_or (context' ctx) JNull)]
      in returns (JObj [(''status'', JStr ''critique_generated'')])
           (ctx \<lparr> critique := generateContent contentData \<rparr>) w)"

definition critic_executeValidationPhase :: handler where
  "critic_executeValidationPhase ctx w =
     (case validateWithRules [''critic''] of
        JObj v \<Rightarrow>
          if \<not> truthy (obj_get v ''valid'')
          then throws
                 (Error (''Validation failed: '' @
                    (case obj_get v ''errors'' of JArr es \<Rightarrow> js_join '', '' es | _ \<Rightarrow> [])))
                 ctx w
          else returns (JObj [(''status'', JStr ''validated'')]) ctx w
      | _ \<Rightarrow> throws (TypeError ''Cannot read properties of undefined'') ctx w)"

text \<open>
  The pieces of \<open>formatCritiqueReport\<close>: a paragraph for a truthy text, and a bullet
  list for an array with an element. A truthy value with a positive length that is no
  array has no \<open>forEach\<close>.
\<close>

definition text_section :: "string \<Rightarrow> jsval \<Rightarrow> string" where
  "text_section title v =
     (if truthy v then title @ ToString v @ newline @ newline else [])"

definition list_section :: "runtime \<Rightarrow> string \<Rightarrow> jsval \<Rightarrow> error + string" where
  "list_section rt title v =
     (if truthy v \<and> length_exceeds rt v 0
      then (case v of
              JArr xs \<Rightarrow>
                Inr (title @ newline @
                     concat (map (\<lambda>x. ''- '' @ ToString x @ newline) xs) @ newline)
            | _ \<Rightarrow> Inl (TypeError ''forEach is not a function''))
      else Inr [])"

fun collect :: "(error + string) list \<Rightarrow> error + string" where
  "collect [] = Inr []"
| "collect (Inl e # xs) = Inl e"
| "collect (Inr s # xs) = (case collect xs of Inl e \<Rightarrow> Inl e | Inr t \<Rightarrow> Inr (s @ t))"

definition formatCritiqueReport ::
  "runtime \<Rightarrow> jsval \<Rightarrow> (string \<times> jsval) list \<Rightarrow> error + string" where
  "formatCritiqueReport rt crit ps =
     (case obj_get ps ''domain'' of
        JStr d \<Rightarrow>
          (case crit of
             JObj c \<Rightarrow>
               collect
                 [Inr (''# '' @ toUpperCase d @ '' CRITIQUE (BaseWorkflow)'' @ newline @ newline),
                  Inr (if truthy (obj_get c ''metadata'')
                       then ''**Metadata:** '' @ JSON_stringify rt (obj_get c ''metadata'') @
                            newline @ newline
                       else []),
                  Inr (text_section ''**Overview:** '' (obj_get c ''overview'')),
                  Inr (text_section ''**What I Understood:** '' (obj_get c ''understanding'')),
                  list_section rt ''**Critical Points:**'' (obj_get c ''critical_points''),
                  list_section rt ''**Positive Points:**'' (obj_get c ''positive_points''),
                  list_section rt ''**Questions for Clarification:**'' (obj_get c ''questions''),
                  list_section rt ''**Final Remarks:**'' (obj_get c ''final_remarks'')]
           | _ \<Rightarrow> Inl (TypeError ''Cannot read properties of undefined (reading metadata)''))
      | JUndefined \<Rightarrow> Inl (TypeError ''Cannot read properties of undefined (reading toUpperCase)'')
      | JNull \<Rightarrow> Inl (TypeError ''Cannot read properties of null (reading toUpperCase)'')
      | _ \<Rightarrow> Inl (TypeError ''params.domain.toUpperCase is not a function''))"

definition critic_executeOutputPhase :: "runtime \<Rightarrow> handler" where
  "critic_executeOutputPhase rt ctx w =
     (case formatCritiqueReport rt (critique ctx) (params ctx) of
        Inl e \<Rightarrow> throws e ctx w
      | Inr report \<Rightarrow>
          returns (JObj [(''status'', JStr ''output_formatted'')])
            (ctx \<lparr> result :=
                     JObj [(''personality'', personality ctx),
                           (''domain'', obj_get (params ctx) ''domain''),
                           (''report'', JStr report)] \<rparr>)
            w)"

definition CriticWorkflow :: "runtime \<Rightarrow> workflow" where
  "CriticWorkflow rt =
     extends (BaseWorkflow rt) [''critic:harsh'', ''critic:mentor'', ''critic:casual'']
       [(''executeInitializationPhase'', critic_executeInitializationPhase),
        (''executeParametersPhase'', critic_executeParametersPhase),
        (''executeWorkflowPhase'', critic_executeWorkflowPhase),
        (''executeValidationPhase'', critic_executeValidationPhase),
        (''executeOutputPhase'', critic_executeOutputPhase rt)]"

section \<open>The Orchestrators\<close>

text \<open>
  What the \<open>require\<close> lines at the head of an Orchestrator file bring in: a workflow
  class each, taken here as the object its constructor builds. Which file a
  \<open>require\<close> resolves to is not fixed by the Orchestrator, so the classes are
  parameters.
\<close>

record modules =
  require_message :: workflow
  require_system :: workflow
  require_email :: workflow
  require_output :: workflow
  require_agent :: workflow
  require_meta :: workflow
  require_critic :: workflow

text \<open>\<open>const [category] = command.split(':')\<close>\<close>

definition category_of :: "string \<Rightarrow> string" where
  "category_of cmd = (case split_on CHR '':'' cmd of c # cs \<Rightarrow> c | [] \<Rightarrow> [])"

text \<open>The object literal \<open>{ command, params }\<close>: every other property is undefined.\<close>

definition new_context :: "string \<Rightarrow> (string \<times> jsval) list \<Rightarrow> ExecutionContext" where
  "new_context cmd ps =
     \<lparr> command = cmd, params = ps, globalContext = JUndefined, save = JUndefined,
       context' = JUndefined, args = JUndefined, phaseResults = None, result = JUndefined,
       personality = JUndefined, sourceContent = JUndefined, previousCritique = JUndefined,
       critique = JUndefined \<rparr>"

subsection \<open>core/orchestrator.js\<close>

definition initialize_core :: "modules \<Rightarrow> (string \<Rightarrow> workflow option) \<Rightarrow> (string \<Rightarrow> workflow option)" where
  "initialize_core m wfs = wfs(''message'' \<mapsto> require_message m, ''system'' \<mapsto> require_system m)"

definition Orchestrator_core :: "modules \<Rightarrow> (string \<Rightarrow> workflow option)" where
  "Orchestrator_core m = initialize_core m Map.empty"

text \<open>
  \<open>executeCommand\<close> of core/orchestrator.js and of unnamed/part_007 (the same text).
  The result carries the phases announced, the outcome and the state left behind.
\<close>

definition executeCommand ::
  "(string \<Rightarrow> workflow option) \<Rightarrow> string \<Rightarrow> (string \<times> jsval) list \<Rightarrow> world \<Rightarrow>
     string list \<times> (error + jsval) \<times> world" where
  "executeCommand wfs cmd ps w =
     (case wfs (category_of cmd) of
        None \<Rightarrow> ([], Inl (Error (''No workflow found for category: '' @ category_of cmd)), w)
      | Some wfl \<Rightarrow>
          if \<not> isSupportedCommand wfl cmd
          then ([], Inl (Error (''Command not supported: '' @ cmd)), w)
          else (case execute wfl (new_context cmd ps) w of
                  (tr, out, ctx1, w1) \<Rightarrow> (tr, out, w1)))"

subsection \<open>unnamed/part_007\<close>

text \<open>
  The class body defines \<open>initialize\<close> twice. A class body is read top to bottom and a
  later definition of a name replaces the earlier one.
\<close>

definition initialize_007_first :: "modules \<Rightarrow> (string \<Rightarrow> workflow option) \<Rightarrow> (string \<Rightarrow> workflow option)" where
  "initialize_007_first m wfs =
     wfs(''message'' \<mapsto> require_message m, ''system'' \<mapsto> require_system m,
         ''email'' \<mapsto> require_email m, ''output'' \<mapsto> require_output m,
         ''agent'' \<mapsto> require_agent m)"

definition initialize_007_second :: "modules \<Rightarrow> (string \<Rightarrow> workflow option) \<Rightarrow> (string \<Rightarrow> workflow option)" where
  "initialize_007_second m wfs =
     wfs(''message'' \<mapsto> require_message m, ''system'' \<mapsto> require_system m)"

definition class_method :: "(string \<times> 'a) list \<Rightarrow> string \<Rightarrow> 'a option" where
  "class_method body name = map_of (rev body) name"

definition Orchestrator_007_body ::
  "(string \<times> (modules \<Rightarrow> (string \<Rightarrow> workflow option) \<Rightarrow> (string \<Rightarrow> workflow option))) list" where
  "Orchestrator_007_body =
     [(''initialize'', initialize_007_first), (''initialize'', initialize_007_second)]"

text \<open>The constructor: \<open>this.workflows = new Map(); ...; this.initialize()\<close>.\<close>

definition Orchestrator_007 :: "modules \<Rightarrow> (string \<Rightarrow> workflow option)" where
  "Orchestrator_007 m =
     (case class_method Orchestrator_007_body ''initialize'' of
        Some initialize \<Rightarrow> initialize m Map.empty
      | None \<Rightarrow> Map.empty)"

text \<open>
  \<open>loadDefaultSettings\<close> returns its defaults whatever the two configuration files
  hold: it reads them only to announce that they loaded.
\<close>

definition loadDefaultSettings :: "(string \<times> jsval) list" where
  "loadDefaultSettings = default_settings"

subsection \<open>unnamed/part_008\<close>

definition initialize_008 :: "modules \<Rightarrow> (string \<Rightarrow> workflow option) \<Rightarrow> (string \<Rightarrow> workflow option)" where
  "initialize_008 m wfs =
     wfs(''message'' \<mapsto> require_message m, ''system'' \<mapsto> require_system m,
         ''agent'' \<mapsto> require_agent m, ''meta'' \<mapsto> require_meta m,
         ''critic'' \<mapsto> require_critic m)"

definition Orchestrator_008 :: "modules \<Rightarrow> (string \<Rightarrow> workflow option)" where
  "Orchestrator_008 m = initialize_008 m Map.empty"

text \<open>The state right after \<open>new Orchestrator()\<close> of part_007 and part_008.\<close>

definition fresh_world :: "filesystem \<Rightarrow> string \<Rightarrow> world" where
  "fresh_world f t = \<lparr> settings = Some loadDefaultSettings, store = [], fs = f, now = t \<rparr>"

definition savePipelineData ::
  "runtime \<Rightarrow> jsval \<Rightarrow> jsval \<Rightarrow> filesystem \<Rightarrow> error option \<times> filesystem" where
  "savePipelineData rt filePath data f =
     (case filePath of
        JStr p \<Rightarrow>
          (case (if \<not> existsSync f (path_dirname p) then mkdirSync f (path_dirname p) else Inr f) of
             Inl e \<Rightarrow> (Some e, f)
           | Inr f1 \<Rightarrow>
               (case writeFileSync f1 p (JSON_stringify rt data) of
                  Inl e \<Rightarrow> (Some e, f1)
                | Inr f2 \<Rightarrow> (None, f2)))
      | _ \<Rightarrow> (Some (TypeError ''The path argument must be of type string''), f))"

text \<open>
  The two global parameters, taken out of \<open>params\<close> before the lookup: \<open>save\<close>, and
  \<open>context\<close>, which is also pushed on the Orchestrator's \<open>context\<close> array. The result
  is \<open>globalParams\<close>, what is left of \<open>params\<close>, and the state.
\<close>

definition extract_save ::
  "(string \<times> jsval) list \<Rightarrow> (string \<times> jsval) list \<times> (string \<times> jsval) list" where
  "extract_save ps =
     (if truthy (obj_get ps ''save'')
      then ([(''save'', obj_get ps ''save'')], obj_delete ps ''save'')
      else ([], ps))"

definition global_parameters ::
  "string \<Rightarrow> (string \<times> jsval) list \<Rightarrow> world \<Rightarrow>
     (string \<times> jsval) list \<times> (string \<times> jsval) list \<times> world" where
  "global_parameters cmd ps w =
     (case extract_save ps of
        (gp1, ps1) \<Rightarrow>
          if truthy (obj_get ps1 ''context'')
          then (gp1 @ [(''context'', obj_get ps1 ''context'')],
                obj_delete ps1 ''context'',
                w \<lparr> store := store w @
                        [context_entry cmd (obj_get ps1 ''context'') (now w)] \<rparr>)
          else (gp1, ps1, w))"

text \<open>\<open>{ command, params, globalContext: this.context, ...globalParams }\<close>\<close>

definition dispatch_context ::
  "string \<Rightarrow> (string \<times> jsval) list \<Rightarrow> (string \<times> jsval) list \<Rightarrow> world \<Rightarrow> ExecutionContext" where
  "dispatch_context cmd ps gp w =
     (new_context cmd ps)
       \<lparr> globalContext := JArr (store w),
         save := obj_get gp ''save'',
         context' := obj_get gp ''context'' \<rparr>"

text \<open>The object handed to \<open>savePipelineData\<close>.\<close>

definition pipeline_record ::
  "ExecutionContext \<Rightarrow> (string \<times> jsval) list \<Rightarrow> jsval \<Rightarrow> string \<Rightarrow> jsval" where
  "pipeline_record ctx globalParams res t =
     JObj [(''command'', JStr (command ctx)),
           (''params'', JObj (params ctx)),
           (''globalParams'', JObj globalParams),
           (''phaseResults'', js_or (phaseResults_value ctx) (JObj [])),
           (''result'', res),
           (''timestamp'', JStr t)]"

definition executeCommand_008 ::
  "runtime \<Rightarrow> (string \<Rightarrow> workflow option) \<Rightarrow> string \<Rightarrow> (string \<times> jsval) list \<Rightarrow> world \<Rightarrow>
     string list \<times> (error + jsval) \<times> world" where
  "executeCommand_008 rt wfs cmd ps w =
     (case global_parameters cmd ps w of
        (gp, ps2, w1) \<Rightarrow>
          (case wfs (category_of cmd) of
             None \<Rightarrow>
               ([], Inl (Error (''No workflow found for category: '' @ category_of cmd)), w1)
           | Some wfl \<Rightarrow>
               if \<not> isSupportedCommand wfl cmd
               then ([], Inl (Error (''Command not supported: '' @ cmd)), w1)
               else (case execute wfl (dispatch_context cmd ps2 gp w1) w1 of
                       (tr, Inl e, ctx1, w2) \<Rightarrow> (tr, Inl e, w2)
                     | (tr, Inr res, ctx1, w2) \<Rightarrow>
                         if truthy (save ctx1)
                         then (case savePipelineData rt (save ctx1)
                                      (pipeline_record ctx1 gp res (now w2)) (fs w2) of
                                 (Some e, f) \<Rightarrow> (tr, Inl e, w2 \<lparr> fs := f \<rparr>)
                               | (None, f) \<Rightarrow> (tr, Inr res, w2 \<lparr> fs := f \<rparr>))
                         else (tr, Inr res, w2))))"

section \<open>BaseWorkflow, the older copy (unnamed/part_011)\<close>





section \<open>The workflow classes of the repository, and a state to run them in\<close>

text \<open>
  The classes under \<open>hooks/workflows\<close> and the AgentWorkflow of part_010. The
  repository has no email workflow; BaseWorkflow stands in its place, and no
  Orchestrator registers it.
\<close>

definition repository :: "runtime \<Rightarrow> modules" where
  "repository rt =
     \<lparr> require_message = MessageWorkflow rt,
       require_system = SystemWorkflow rt,
       require_email = BaseWorkflow rt,
       require_output = OutputWorkflow rt,
       require_agent = AgentWorkflow rt,
       require_meta = MetaWorkflow rt,
       require_critic = CriticWorkflow rt \<rparr>"

text \<open>The same with the MessageWorkflow of part_009.\<close>

definition repository_009 :: "runtime \<Rightarrow> modules" where
  "repository_009 rt = (repository rt) \<lparr> require_message := MessageWorkflow_009 rt \<rparr>"

text \<open>
  A runtime and a fresh state for the worked examples. The theorems below hold for
  every runtime and every state; the examples need one of each. This runtime converts
  no string to a number and serializes with ToString.
\<close>

definition not_a_number :: "string \<Rightarrow> int option" where
  "not_a_number s = None"

definition example_runtime :: runtime where
  "example_runtime = \<lparr> StringToNumber = not_a_number, JSON_stringify = ToString \<rparr>"

definition example_world :: world where
  "example_world = fresh_world \<lparr> files = [], dirs = [] \<rparr> ''2025-11-16T10:00:00.000Z''"

section \<open>Two small subclasses, inputs for the examples\<close>







section \<open>The result contract\<close>

text \<open>
  What the specification asks of the object a handler answers with: \<open>success: true\<close>
  and an \<open>action\<close> that is a string.
\<close>

definition reports_success :: "jsval \<Rightarrow> bool" where
  "reports_success v =
     (case v of
        JObj r \<Rightarrow> obj_get r ''success'' = JBool True \<and>
                  (case obj_get r ''action'' of JStr a \<Rightarrow> True | _ \<Rightarrow> False)
      | _ \<Rightarrow> False)"

section \<open>Running a pipeline\<close>

lemma methodName_phases:
  "methodName ''initialization'' = ''executeInitializationPhase''"
  "methodName ''parameters'' = ''executeParametersPhase''"
  "methodName ''workflow'' = ''executeWorkflowPhase''"
  "methodName ''validation'' = ''executeValidationPhase''"
  "methodName ''output'' = ''executeOutputPhase''"
  by code_simp+

lemma parameters_check_phaseResults [simp]:
  "parameters_check rt (ctx \<lparr> phaseResults := x \<rparr>) = parameters_check rt ctx"
  by (simp add: parameters_check_def)

lemma extends_fields [simp]:
  "supportedCommands (extends b cmds body) = cmds"
  "phases (extends b cmds body) = phases b"
  by (simp_all add: extends_def)

text \<open>
  A class that overrides the workflow phase alone (message, meta, output, system and
  agent do): its pipeline in one equation.
\<close>

lemma execute_workflow_only:
  "execute (extends (BaseWorkflow rt) cmds [(''executeWorkflowPhase'', h)]) ctx w =
     (case parameters_check rt ctx of
        Some e \<Rightarrow>
          ([''initialization'', ''parameters''], Inl e,
           ctx \<lparr> phaseResults :=
                   Some [(''initialization'', JObj [(''status'', JStr ''initialized'')])] \<rparr>,
           w)
      | None \<Rightarrow>
          (case h (ctx \<lparr> phaseResults := Some
                     [(''initialization'', JObj [(''status'', JStr ''initialized'')]),
                      (''parameters'', JObj [(''status'', JStr ''parameters_processed''),
                                             (''params'', JObj (params ctx))])] \<rparr>) w of
             (Inl e, c, w1) \<Rightarrow> ([''initialization'', ''parameters'', ''workflow''], Inl e, c, w1)
           | (Inr r, c, w1) \<Rightarrow>
               (case phaseResults c of
                  None \<Rightarrow>
                    ([''initialization'', ''parameters'', ''workflow''],
                     Inl (TypeError ''Cannot set properties of undefined''), c, w1)
                | Some prs \<Rightarrow>
                    (standard_phases,
                     Inr (js_or (result c)
                            (JObj (obj_set (obj_set (obj_set prs ''workflow'' r) ''validation''
                                      (JObj [(''status'', JStr ''validated'')])) ''output''
                                      (JObj [(''status'', JStr ''output_formatted'')])))),
                     c \<lparr> phaseResults := Some
                            (obj_set (obj_set (obj_set prs ''workflow'' r) ''validation''
                                      (JObj [(''status'', JStr ''validated'')])) ''output''
                                      (JObj [(''status'', JStr ''output_formatted'')])) \<rparr>,
                     w1))))"
  by (auto simp: execute_def executePipeline_def extends_def BaseWorkflow_def standard_phases_def
      executePhase_def methodName_phases base_executeParametersPhase_def
      base_executeInitializationPhase_def base_executeValidationPhase_def base_executeOutputPhase_def
      returns_def throws_def obj_set_def phaseResults_value_def
      split: option.splits prod.splits sum.splits)

lemmas run_simps =
  execute_def executePipeline_def extends_def BaseWorkflow_def standard_phases_def
  executePhase_def methodName_phases base_executeParametersPhase_def parameters_check_def
  base_executeInitializationPhase_def base_executeValidationPhase_def base_executeOutputPhase_def
  base_executeWorkflowPhase_def
  returns_def throws_def obj_set_def obj_get_def phaseResults_value_def js_or_def new_context_def

section \<open>Phase order\<close>

text \<open>
  The loop announces the phases in the order of the list. When it ends without an error
  it has announced all of them; when it stops on an error it has announced the phases
  up to the one that failed, and no other.
\<close>

lemma runPhases_shape:
  "runPhases wfl ps ctx w = (tr, st, ctx1, w1) \<Longrightarrow>
     (case st of None \<Rightarrow> tr = ps | Some e \<Rightarrow> (\<exists>k < length ps. tr = take (Suc k) ps))"
proof (induction ps arbitrary: ctx w tr st ctx1 w1)
  case Nil
  then show ?case by simp
next
  case (Cons p ps)
  show ?case
  proof (cases "executePhase wfl p ctx w")
    case (fields out c2 w2)
    show ?thesis
    proof (cases out)
      case (Inl e)
      with fields Cons.prems show ?thesis by auto
    next
      case (Inr r)
      show ?thesis
      proof (cases "phaseResults c2")
        case None
        with Inr fields Cons.prems show ?thesis by auto
      next
        case (Some prs)
        obtain tr' st' c3 w3 where rec:
          "runPhases wfl ps (c2 \<lparr> phaseResults := Some (obj_set prs p r) \<rparr>) w2 = (tr', st', c3, w3)"
          by (cases "runPhases wfl ps (c2 \<lparr> phaseResults := Some (obj_set prs p r) \<rparr>) w2") auto
        from Cons.IH[OF rec]
        have ih: "case st' of None \<Rightarrow> tr' = ps
                  | Some e \<Rightarrow> (\<exists>k < length ps. tr' = take (Suc k) ps)" .
        from Cons.prems fields Inr Some rec have eq: "tr = p # tr'" "st = st'" by auto
        show ?thesis
        proof (cases st')
          case None
          with ih eq show ?thesis by simp
        next
          case (Some e)
          with ih obtain k where "k < length ps" "tr' = take (Suc k) ps" by auto
          then have "Suc k < length (p # ps) \<and> p # tr' = take (Suc (Suc k)) (p # ps)" by simp
          with eq Some show ?thesis by auto
        qed
      qed
    qed
  qed
qed

text \<open>
  Claim C3, as amended. For a workflow with the five standard phases (every class that
  extends BaseWorkflow), a run in which every handler returns announces exactly
  initialization, parameters, workflow, validation, output, in that order. A run that
  stops on an error has announced the phases up to and including the failing one: none
  skipped, none twice, none after it. The phases before the failing one form a strict
  prefix of the five; the announced ones form a prefix that is the whole list when it is
  the output phase that fails.
\<close>

theorem phase_order:
  assumes std: "phases wfl = standard_phases"
    and run: "execute wfl ctx w = (tr, out, ctx1, w1)"
  shows "case out of
           Inr v \<Rightarrow> tr = standard_phases
         | Inl e \<Rightarrow> (\<exists>k<5. tr = take (Suc k) standard_phases) \<and>
                     strict_prefix (butlast tr) standard_phases"
proof -
  obtain st where rp:
    "runPhases wfl standard_phases (ctx \<lparr> phaseResults := Some [] \<rparr>) w = (tr, st, ctx1, w1)"
    and out: "out = (case st of Some e \<Rightarrow> Inl e
                     | None \<Rightarrow> Inr (js_or (result ctx1) (phaseResults_value ctx1)))"
    using run std
    by (cases "runPhases wfl standard_phases (ctx \<lparr> phaseResults := Some [] \<rparr>) w")
       (auto simp: execute_def executePipeline_def split: option.splits)
  have len: "length standard_phases = 5" by (simp add: standard_phases_def)
  from runPhases_shape[OF rp]
  have shape: "case st of None \<Rightarrow> tr = standard_phases
               | Some e \<Rightarrow> (\<exists>k < 5. tr = take (Suc k) standard_phases)"
    by (auto simp: len split: option.splits)
  show ?thesis
  proof (cases st)
    case None
    with shape out show ?thesis by simp
  next
    case (Some e)
    with shape obtain k where k: "k < 5" "tr = take (Suc k) standard_phases" by auto
    have "butlast tr = take k standard_phases"
      using k by (simp add: butlast_take len)
    moreover have "strict_prefix (take k standard_phases) standard_phases"
    proof -
      have "length (take k standard_phases) = k" using k(1) len by simp
      then have "take k standard_phases \<noteq> standard_phases" using k(1) len by auto
      then show ?thesis by (simp add: strict_prefix_def take_is_prefix)
    qed
    ultimately show ?thesis using k Some out by auto
  qed
qed

text \<open>
  The theorem at work: \<open>meta:context --list\<close> runs all five phases, and
  \<open>meta:context\<close> with no flag stops in the workflow phase.
\<close>

theorem phase_order_witness:
  "phases (MetaWorkflow example_runtime) = standard_phases \<and>
   fst (execute (MetaWorkflow example_runtime) (new_context ''meta:context'' [(''list'', JBool True)]) example_world)
     = standard_phases \<and>
   fst (execute (MetaWorkflow example_runtime) (new_context ''meta:context'' []) example_world)
     = [''initialization'', ''parameters'', ''workflow'']"
proof -
  have std: "phases (MetaWorkflow example_runtime) = standard_phases"
    by (simp add: MetaWorkflow_def extends_def BaseWorkflow_def)
  obtain tr v c1 w1 where ok:
    "execute (MetaWorkflow example_runtime) (new_context ''meta:context'' [(''list'', JBool True)]) example_world
       = (tr, Inr v, c1, w1)"
    by (simp add: MetaWorkflow_def execute_workflow_only parameters_check_def new_context_def
        meta_executeWorkflowPhase_def meta_handleContext_def returns_def obj_get_def)
  obtain tr' e c2 w2 where bad:
    "execute (MetaWorkflow example_runtime) (new_context ''meta:context'' []) example_world = (tr', Inl e, c2, w2)"
    and tr': "tr' = [''initialization'', ''parameters'', ''workflow'']"
    by (simp add: MetaWorkflow_def execute_workflow_only parameters_check_def new_context_def
        meta_executeWorkflowPhase_def meta_handleContext_def throws_def obj_get_def)
  from phase_order[OF std ok] have "tr = standard_phases" by simp
  moreover from phase_order[OF std bad] have "strict_prefix (butlast tr') standard_phases" by simp
  ultimately show ?thesis using std ok bad tr' by simp
qed

text \<open>
  The claim as it was stated asks for a strict prefix whenever a handler throws. The
  MessageWorkflow of part_009 throws in its output phase on every \<open>message:new\<close>: all
  five phases have then been announced, and the whole list is no strict prefix of
  itself.
\<close>

theorem phase_order_counterexample:
  "fst (execute (MessageWorkflow_009 example_runtime)
          (new_context ''message:new'' [(''message'', JStr ''hi'')]) example_world)
     = standard_phases \<and>
   fst (snd (execute (MessageWorkflow_009 example_runtime)
          (new_context ''message:new'' [(''message'', JStr ''hi'')]) example_world))
     = Inl (TypeError ''Cannot read properties of undefined (reading message)'') \<and>
   \<not> strict_prefix standard_phases standard_phases"
  by (simp add: MessageWorkflow_009_def run_simps message009_executeWorkflowPhase_def
      message009_handleNewMessage_def message009_executeValidationPhase_def
      message009_executeOutputPhase_def validateWithRules_def Let_def)

section \<open>Dispatch of commands no workflow handles\<close>

lemma obj_get_delete_other: "k \<noteq> k' \<Longrightarrow> obj_get (obj_delete ps k) k' = obj_get ps k'"
  by (simp add: obj_get_def obj_delete_def delete_conv)

lemma obj_get_delete_same: "obj_get (obj_delete ps k) k = JUndefined"
  by (simp add: obj_get_def obj_delete_def delete_conv)

lemma global_parameters_world:
  "snd (snd (global_parameters cmd ps w)) =
     w \<lparr> store := store w @
            (if truthy (obj_get ps ''context'')
             then [context_entry cmd (obj_get ps ''context'') (now w)] else []) \<rparr>"
  by (simp add: global_parameters_def extract_save_def obj_get_delete_other)

lemma category_examples:
  "category_of ''bogus:foo'' = ''bogus''"
  "category_of ''message:delete'' = ''message''"
  "category_of ''email:send'' = ''email''"
  "category_of ''output:verbosity'' = ''output''"
  "category_of ''message:new'' = ''message''"
  "category_of ''meta:context'' = ''meta''"
  "category_of ''critic:harsh'' = ''critic''"
  "category_of ''message:read'' = ''message''"
  by (simp_all add: category_of_def)

text \<open>
  Claim C1, as amended. When the category has no registered workflow, or the workflow
  found does not list the command, \<open>executeCommand\<close> throws before any phase is
  announced. In core/orchestrator.js and part_007 the state is left as it was. In
  part_008 the settings and the file system are left as they were, and so is the Global
  Context Store unless \<open>params\<close> carry a truthy \<open>context\<close>: that text is pushed on the
  store before the lookup, so one entry for the command is appended even though the
  dispatch fails. A \<open>save\<close> entry has no effect.
\<close>

theorem unregistered_dispatch:
  assumes "wfs (category_of cmd) = None \<or>
           (\<exists>wfl. wfs (category_of cmd) = Some wfl \<and> \<not> isSupportedCommand wfl cmd)"
  shows "\<exists>e. executeCommand wfs cmd ps w = ([], Inl e, w) \<and>
             executeCommand_008 rt wfs cmd ps w =
               ([], Inl e,
                w \<lparr> store := store w @
                       (if truthy (obj_get ps ''context'')
                        then [context_entry cmd (obj_get ps ''context'') (now w)]
                        else []) \<rparr>)"
proof -
  obtain gp ps2 w1 where g: "global_parameters cmd ps w = (gp, ps2, w1)"
    by (cases "global_parameters cmd ps w") auto
  then have w1: "w1 = w \<lparr> store := store w @
                       (if truthy (obj_get ps ''context'')
                        then [context_entry cmd (obj_get ps ''context'') (now w)]
                        else []) \<rparr>"
    using global_parameters_world[of cmd ps w] by simp
  from assms show ?thesis
  proof
    assume "wfs (category_of cmd) = None"
    then show ?thesis using g w1 by (simp add: executeCommand_def executeCommand_008_def)
  next
    assume "\<exists>wfl. wfs (category_of cmd) = Some wfl \<and> \<not> isSupportedCommand wfl cmd"
    then show ?thesis using g w1 by (auto simp: executeCommand_def executeCommand_008_def)
  qed
qed

text \<open>
  The theorem at work on part_008 with the repository's classes: an unknown category
  with a \<open>save\<close> path, and a command its workflow does not list.
\<close>

theorem unregistered_dispatch_witness:
  "executeCommand_008 example_runtime (Orchestrator_008 (repository example_runtime))
     ''bogus:foo'' [(''save'', JStr ''/tmp/trace.json'')] example_world
   = ([], Inl (Error ''No workflow found for category: bogus''), example_world) \<and>
   executeCommand_008 example_runtime (Orchestrator_008 (repository example_runtime))
     ''message:delete'' [] example_world
   = ([], Inl (Error ''Command not supported: message:delete''), example_world)"
proof -
  let ?wfs = "Orchestrator_008 (repository example_runtime)"
  have a: "?wfs (category_of ''bogus:foo'') = None"
    by (simp add: category_examples Orchestrator_008_def initialize_008_def)
  have b: "\<exists>wfl. ?wfs (category_of ''message:delete'') = Some wfl \<and> \<not> isSupportedCommand wfl ''message:delete''"
    by (simp add: category_examples Orchestrator_008_def initialize_008_def repository_def
        MessageWorkflow_def extends_def isSupportedCommand_def)
  from unregistered_dispatch[of ?wfs "''bogus:foo''" "[(''save'', JStr ''/tmp/trace.json'')]" example_world example_runtime] a
  have "executeCommand_008 example_runtime ?wfs ''bogus:foo'' [(''save'', JStr ''/tmp/trace.json'')] example_world
          = ([], Inl (Error ''No workflow found for category: bogus''), example_world)"
    by (auto simp: executeCommand_def category_examples obj_get_def)
  moreover
  from unregistered_dispatch[of ?wfs "''message:delete''" "[]" example_world example_runtime] b
  have "executeCommand_008 example_runtime ?wfs ''message:delete'' [] example_world
          = ([], Inl (Error ''Command not supported: message:delete''), example_world)"
    by (auto simp: executeCommand_def category_examples obj_get_def)
  ultimately show ?thesis by simp
qed

text \<open>
  The claim as it was stated: \<open>bogus:foo\<close> with a \<open>context\<close> leaves the store changed.
\<close>

theorem unregistered_dispatch_counterexample:
  "Orchestrator_008 (repository example_runtime) (category_of ''bogus:foo'') = None \<and>
   store example_world = [] \<and>
   store (snd (snd (executeCommand_008 example_runtime
                      (Orchestrator_008 (repository example_runtime))
                      ''bogus:foo'' [(''context'', JStr ''note'')] example_world)))
     = [JObj [(''command'', JStr ''bogus:foo''), (''content'', JStr ''note''),
              (''timestamp'', JStr ''2025-11-16T10:00:00.000Z'')]]"
  by (simp add: category_examples Orchestrator_008_def initialize_008_def
      executeCommand_008_def global_parameters_def extract_save_def obj_get_def obj_delete_def
      context_entry_def example_world_def fresh_world_def)

section \<open>The registry of part_007\<close>

text \<open>
  Claim C10. The class body of part_007 defines \<open>initialize\<close> twice and the second
  definition is the one the constructor calls: the registry holds exactly \<open>message\<close>
  and \<open>system\<close>, whatever classes were imported. The first definition would have
  registered \<open>email\<close>, \<open>output\<close> and \<open>agent\<close> as well. Every command of those
  three categories is therefore turned away with the unknown-category error, the state
  untouched.
\<close>

theorem registry_007:
  "dom (Orchestrator_007 m) = {''message'', ''system''} \<and>
   class_method Orchestrator_007_body ''initialize'' = Some initialize_007_second \<and>
   dom (initialize_007_first m Map.empty) = {''message'', ''system'', ''email'', ''output'', ''agent''} \<and>
   (category_of cmd \<in> {''email'', ''output'', ''agent''} \<longrightarrow>
      executeCommand (Orchestrator_007 m) cmd ps w =
        ([], Inl (Error (''No workflow found for category: '' @ category_of cmd)), w))"
proof -
  have init: "class_method Orchestrator_007_body ''initialize'' = Some initialize_007_second"
    by (simp add: class_method_def Orchestrator_007_body_def)
  then have reg: "Orchestrator_007 m = initialize_007_second m Map.empty"
    by (simp add: Orchestrator_007_def)
  have d: "dom (Orchestrator_007 m) = {''message'', ''system''}"
    unfolding reg initialize_007_second_def by auto
  have d1: "dom (initialize_007_first m Map.empty) = {''message'', ''system'', ''email'', ''output'', ''agent''}"
    unfolding initialize_007_first_def by auto
  have "category_of cmd \<in> {''email'', ''output'', ''agent''} \<Longrightarrow> Orchestrator_007 m (category_of cmd) = None"
    unfolding reg initialize_007_second_def by auto
  then show ?thesis using init d d1 by (auto simp: executeCommand_def)
qed

theorem registry_007_witness:
  "category_of ''email:send'' \<in> {''email'', ''output'', ''agent''} \<and>
   executeCommand (Orchestrator_007 (repository example_runtime)) ''email:send'' [] example_world =
     ([], Inl (Error ''No workflow found for category: email''), example_world)"
  using registry_007[of "repository example_runtime" "''email:send''" "[]" example_world]
  by (simp add: category_examples)

text \<open>
  Claim C8, on the code: dispatched through the Orchestrator of part_007, a valid
  \<open>output:verbosity --level high\<close> is turned away as an unknown category, and the
  verbosity setting stays as it was. (No Orchestrator of the repository registers
  OutputWorkflow.)
\<close>

theorem verbosity_unreachable_007:
  "executeCommand (Orchestrator_007 m) ''output:verbosity'' [(''level'', JStr ''high'')] w =
     ([], Inl (Error ''No workflow found for category: output''), w)"
  by (simp add: executeCommand_def category_examples Orchestrator_007_def class_method_def
      Orchestrator_007_body_def initialize_007_second_def)

text \<open>
  The handler itself does what the claim says once some Orchestrator registers the
  class: a level outside the enumeration is refused in the workflow phase with the
  list of valid levels and the state untouched, a level inside it is stored.
\<close>

lemma valid_options:
  "js_join '', '' validLevels = ''low, medium, high, off''"
  "js_join '', '' validTypes = ''json, markdown, text''"
  by (simp_all add: js_join_def validLevels_def validTypes_def)

lemma verbosity_when_registered:
  assumes "wfs ''output'' = Some (OutputWorkflow rt)"
  shows "executeCommand wfs ''output:verbosity'' [(''level'', lv)] w =
     (if lv \<in> set validLevels
      then (standard_phases,
            Inr (JObj [(''initialization'', JObj [(''status'', JStr ''initialized'')]),
                       (''parameters'', JObj [(''status'', JStr ''parameters_processed''),
                                              (''params'', JObj [(''level'', lv)])]),
                       (''workflow'', JObj [(''success'', JBool True),
                                            (''action'', JStr ''set_verbosity''),
                                            (''level'', lv),
                                            (''description'', obj_get descriptions (ToString lv))]),
                       (''validation'', JObj [(''status'', JStr ''validated'')]),
                       (''output'', JObj [(''status'', JStr ''output_formatted'')])]),
            w \<lparr> settings := Some (obj_set (settings_or_empty w) ''verbosity'' lv) \<rparr>)
      else ([''initialization'', ''parameters'', ''workflow''],
            Inl (Error ''Invalid verbosity level. Valid options: low, medium, high, off''), w))"
  using assms
  by (simp add: executeCommand_def category_examples OutputWorkflow_def isSupportedCommand_def
      execute_workflow_only
      parameters_check_def new_context_def output_executeWorkflowPhase_def
      output_handleVerbosity_def Let_def returns_def throws_def valid_options js_or_def
      obj_set_def) (simp add: obj_get_def)

section \<open>What a successful dispatch resolves to\<close>

text \<open>
  The handlers of the message, system, agent and meta workflows leave the context as
  they found it and, for a command of their class, answer with an object that reports
  success.
\<close>

lemma message_handler_success:
  "command c \<in> set [''message:new'', ''message:read''] \<Longrightarrow>
   message_executeWorkflowPhase rt c w = (Inr r, c', w') \<Longrightarrow> c' = c \<and> reports_success r"
  by (auto simp: message_executeWorkflowPhase_def message_handleNewMessage_def
      message_handleReadMessages_def returns_def reports_success_def obj_get_def Let_def)

lemma system_handler_success:
  "command c \<in> set [''system:on'', ''system:health'', ''system:manifest''] \<Longrightarrow>
   system_executeWorkflowPhase c w = (Inr r, c', w') \<Longrightarrow> c' = c \<and> reports_success r"
  by (auto simp: system_executeWorkflowPhase_def system_handleSystemOn_def
      system_handleSystemHealth_def system_handleSystemManifest_def
      returns_def reports_success_def obj_get_def Let_def split: if_splits)

lemma agent_handler_success:
  "command c \<in> set [''agent:switch'', ''agent:status'', ''agent:list'', ''agent:reset''] \<Longrightarrow>
   agent_executeWorkflowPhase c w = (Inr r, c', w') \<Longrightarrow> c' = c \<and> reports_success r"
  by (auto simp: agent_executeWorkflowPhase_def agent_handleSwitch_def agent_handleStatus_def
      agent_handleList_def agent_handleReset_def
      returns_def throws_def reports_success_def obj_get_def Let_def split: if_splits sum.splits)

lemma meta_handler_success:
  "command c \<in> set [''meta:context''] \<Longrightarrow>
   meta_executeWorkflowPhase c w = (Inr r, c', w') \<Longrightarrow> c' = c \<and> reports_success r"
  by (auto simp: meta_executeWorkflowPhase_def meta_handleContext_def
      returns_def throws_def reports_success_def obj_get_def Let_def split: if_splits)

text \<open>
  Such a class returns the \<open>phaseResults\<close> object: no phase sets \<open>context.result\<close>,
  and the handler's answer is the entry of the workflow phase.
\<close>

lemma workflow_only_success:
  assumes H: "\<And>c w r c' w'. command c \<in> set cmds \<Longrightarrow> h c w = (Inr r, c', w') \<Longrightarrow>
                c' = c \<and> reports_success r"
    and run: "execute (extends (BaseWorkflow rt) cmds [(''executeWorkflowPhase'', h)]) ctx w
                = (tr, Inr res, c1, w1)"
    and cmd: "command ctx \<in> set cmds"
    and res: "result ctx = JUndefined"
  shows "\<exists>prs. res = JObj prs \<and> map fst prs = standard_phases \<and>
               reports_success (obj_get prs ''workflow'')"
proof -
  let ?c = "ctx \<lparr> phaseResults := Some
                     [(''initialization'', JObj [(''status'', JStr ''initialized'')]),
                      (''parameters'', JObj [(''status'', JStr ''parameters_processed''),
                                             (''params'', JObj (params ctx))])] \<rparr>"
  from run have pc: "parameters_check rt ctx = None"
    by (auto simp: execute_workflow_only split: option.splits)
  obtain out c w' where h: "h ?c w = (out, c, w')" by (cases "h ?c w") auto
  from run pc h obtain r where out: "out = Inr r"
    by (cases out) (auto simp: execute_workflow_only)
  from H[of ?c w r c w'] cmd h out have c: "c = ?c" and ok: "reports_success r" by auto
  from run pc h out c res
  have "res = JObj [(''initialization'', JObj [(''status'', JStr ''initialized'')]),
                    (''parameters'', JObj [(''status'', JStr ''parameters_processed''),
                                           (''params'', JObj (params ctx))]),
                    (''workflow'', r),
                    (''validation'', JObj [(''status'', JStr ''validated'')]),
                    (''output'', JObj [(''status'', JStr ''output_formatted'')])]"
    by (auto simp: execute_workflow_only js_or_def obj_set_def)
  with ok show ?thesis by (simp add: standard_phases_def obj_get_def)
qed

text \<open>A run that succeeded ended with the last phase returning.\<close>

lemma runPhases_last:
  "runPhases wfl (ps @ [p]) ctx w = (tr, None, c1, w1) \<Longrightarrow>
     \<exists>c w' r c' prs. executePhase wfl p c w' = (Inr r, c', w1) \<and> phaseResults c' = Some prs \<and>
        c1 = c' \<lparr> phaseResults := Some (obj_set prs p r) \<rparr>"
proof (induction ps arbitrary: ctx w tr)
  case Nil
  then show ?case
    by (fastforce split: prod.splits sum.splits option.splits)
next
  case (Cons q ps)
  from Cons.prems obtain c2 w2 tr2 where
    "runPhases wfl (ps @ [p]) c2 w2 = (tr2, None, c1, w1)"
    by (auto split: prod.splits sum.splits option.splits)
  from Cons.IH[OF this] show ?case .
qed

lemma execute_last:
  assumes std: "phases wfl = standard_phases"
    and run: "execute wfl ctx w = (tr, Inr res, c1, w1)"
  shows "\<exists>c w' r c' prs. executePhase wfl ''output'' c w' = (Inr r, c', w1) \<and>
           phaseResults c' = Some prs \<and>
           c1 = c' \<lparr> phaseResults := Some (obj_set prs ''output'' r) \<rparr> \<and>
           res = js_or (result c') (JObj (obj_set prs ''output'' r))"
proof -
  have sp: "standard_phases = [''initialization'', ''parameters'', ''workflow'', ''validation''] @ [''output'']"
    by (simp add: standard_phases_def)
  from run std obtain tr' where rp:
    "runPhases wfl standard_phases (ctx \<lparr> phaseResults := Some [] \<rparr>) w = (tr', None, c1, w1)"
    and res: "res = js_or (result c1) (phaseResults_value c1)"
    by (auto simp: execute_def executePipeline_def split: prod.splits option.splits)
  from runPhases_last[OF rp[unfolded sp]] obtain c w' r c' prs where
    last: "executePhase wfl ''output'' c w' = (Inr r, c', w1)" "phaseResults c' = Some prs"
    and c1: "c1 = c' \<lparr> phaseResults := Some (obj_set prs ''output'' r) \<rparr>" by blast
  from res c1 have "res = js_or (result c') (JObj (obj_set prs ''output'' r))"
    by (simp add: phaseResults_value_def)
  with last c1 show ?thesis by blast
qed

text \<open>The critic's output phase sets \<open>context.result\<close>, and that is what comes back.\<close>

lemma critic_result:
  assumes run: "execute (CriticWorkflow rt) ctx w = (tr, Inr res, c1, w1)"
  shows "\<exists>p d r. res = JObj [(''personality'', p), (''domain'', d), (''report'', JStr r)]"
proof -
  have std: "phases (CriticWorkflow rt) = standard_phases"
    by (simp add: CriticWorkflow_def extends_def BaseWorkflow_def)
  from execute_last[OF std run] obtain c w' r c' prs where
    out: "executePhase (CriticWorkflow rt) ''output'' c w' = (Inr r, c', w1)"
    and res: "res = js_or (result c') (JObj (obj_set prs ''output'' r))" by blast
  from out have "critic_executeOutputPhase rt c w' = (Inr r, c', w1)"
    by (simp add: executePhase_def CriticWorkflow_def extends_def methodName_phases)
  then obtain rep where "result c' = JObj [(''personality'', personality c),
                           (''domain'', obj_get (params c) ''domain''), (''report'', JStr rep)]"
    by (auto simp: critic_executeOutputPhase_def returns_def throws_def split: sum.splits)
  with res show ?thesis by (simp add: js_or_def)
qed

text \<open>A dispatch of part_008 that resolved, taken apart.\<close>

lemma executeCommand_008_success:
  assumes run: "executeCommand_008 rt wfs cmd ps w = (tr, Inr res, w1)"
  shows "\<exists>wfl gp ps2 w0 c1 w2.
           wfs (category_of cmd) = Some wfl \<and> isSupportedCommand wfl cmd \<and>
           global_parameters cmd ps w = (gp, ps2, w0) \<and>
           execute wfl (dispatch_context cmd ps2 gp w0) w0 = (tr, Inr res, c1, w2) \<and>
           (if truthy (save c1)
            then savePipelineData rt (save c1) (pipeline_record c1 gp res (now w2)) (fs w2)
                   = (None, fs w1) \<and> w1 = w2 \<lparr> fs := fs w1 \<rparr>
            else w1 = w2)"
proof -
  obtain gp ps2 w0 where g: "global_parameters cmd ps w = (gp, ps2, w0)"
    by (cases "global_parameters cmd ps w") auto
  from run g obtain wfl where reg: "wfs (category_of cmd) = Some wfl"
    and sup: "isSupportedCommand wfl cmd"
    by (auto simp: executeCommand_008_def split: option.splits if_splits)
  obtain tr' out c1 w2 where ex: "execute wfl (dispatch_context cmd ps2 gp w0) w0 = (tr', out, c1, w2)"
    by (cases "execute wfl (dispatch_context cmd ps2 gp w0) w0") auto
  from run g reg sup ex have o: "tr' = tr" "out = Inr res"
    by (auto simp: executeCommand_008_def split: sum.splits if_splits prod.splits option.splits)
  from run g reg sup ex o
  have "if truthy (save c1)
        then savePipelineData rt (save c1) (pipeline_record c1 gp res (now w2)) (fs w2)
               = (None, fs w1) \<and> w1 = w2 \<lparr> fs := fs w1 \<rparr>
        else w1 = w2"
    by (auto simp: executeCommand_008_def split: sum.splits if_splits prod.splits option.splits)
  with g reg sup ex o show ?thesis by blast
qed

lemma registry_008:
  "Orchestrator_008 m c = Some wfl \<Longrightarrow>
     (c = ''message'' \<and> wfl = require_message m) \<or> (c = ''system'' \<and> wfl = require_system m) \<or>
     (c = ''agent'' \<and> wfl = require_agent m) \<or> (c = ''meta'' \<and> wfl = require_meta m) \<or>
     (c = ''critic'' \<and> wfl = require_critic m)"
  by (auto simp: Orchestrator_008_def initialize_008_def split: if_splits)

lemma dispatch_context_fields [simp]:
  "command (dispatch_context cmd ps gp w) = cmd"
  "params (dispatch_context cmd ps gp w) = ps"
  "result (dispatch_context cmd ps gp w) = JUndefined"
  "save (dispatch_context cmd ps gp w) = obj_get gp ''save''"
  "context' (dispatch_context cmd ps gp w) = obj_get gp ''context''"
  "args (dispatch_context cmd ps gp w) = JUndefined"
  "phaseResults (dispatch_context cmd ps gp w) = None"
  by (simp_all add: dispatch_context_def new_context_def)

text \<open>
  Claim C2, as amended. Dispatched through the Orchestrator of part_008 with the
  repository's classes, a command that resolves does not resolve to the handler's
  object. For the message, system, agent and meta commands it resolves to the
  \<open>phaseResults\<close> object, one entry per phase in phase order, and the entry of the
  workflow phase is the handler's object with \<open>success: true\<close> and a string
  \<open>action\<close>; a critic command resolves to \<open>{personality, domain, report}\<close>. In
  particular \<open>message:new\<close> with message \<open>hi\<close> to \<open>discussion-moderator\<close> resolves to
  the five phase results, the workflow entry being \<open>{success: true, action:
  "created", message: {content, to, timestamp, formattedContent}}\<close>.
\<close>

theorem dispatch_result:
  "(executeCommand_008 rt (Orchestrator_008 (repository rt)) cmd ps w = (tr, Inr res, w1) \<longrightarrow>
      (if category_of cmd = ''critic''
       then (\<exists>p d r. res = JObj [(''personality'', p), (''domain'', d), (''report'', JStr r)])
       else (\<exists>prs. res = JObj prs \<and> map fst prs = standard_phases \<and>
                   reports_success (obj_get prs ''workflow'')))) \<and>
   executeCommand_008 rt (Orchestrator_008 (repository rt)) ''message:new''
       [(''message'', JStr ''hi''), (''to'', JStr ''discussion-moderator'')] w0 =
     (standard_phases,
      Inr (JObj
        [(''initialization'', JObj [(''status'', JStr ''initialized'')]),
         (''parameters'',
            JObj [(''status'', JStr ''parameters_processed''),
                  (''params'', JObj [(''message'', JStr ''hi''),
                                     (''to'', JStr ''discussion-moderator'')])]),
         (''workflow'',
            JObj [(''success'', JBool True),
                  (''action'', JStr ''created''),
                  (''message'',
                     JObj [(''content'', JStr ''hi''),
                           (''to'', JStr ''discussion-moderator''),
                           (''timestamp'', JStr (now w0)),
                           (''formattedContent'',
                              JStr ''Message: hi (to: discussion-moderator)'')])]),
         (''validation'', JObj [(''status'', JStr ''validated'')]),
         (''output'', JObj [(''status'', JStr ''output_formatted'')])]),
      w0)"
proof (intro conjI impI)
  assume run: "executeCommand_008 rt (Orchestrator_008 (repository rt)) cmd ps w = (tr, Inr res, w1)"
  from executeCommand_008_success[OF run] obtain wfl gp ps2 w' c1 w2 where
    reg: "Orchestrator_008 (repository rt) (category_of cmd) = Some wfl"
    and sup: "isSupportedCommand wfl cmd"
    and ex: "execute wfl (dispatch_context cmd ps2 gp w') w' = (tr, Inr res, c1, w2)"
    by blast
  let ?c = "dispatch_context cmd ps2 gp w'"
  from registry_008[OF reg]
  consider (message) "category_of cmd = ''message''" "wfl = MessageWorkflow rt"
    | (system) "category_of cmd = ''system''" "wfl = SystemWorkflow rt"
    | (agent) "category_of cmd = ''agent''" "wfl = AgentWorkflow rt"
    | (meta) "category_of cmd = ''meta''" "wfl = MetaWorkflow rt"
    | (critic) "category_of cmd = ''critic''" "wfl = CriticWorkflow rt"
    by (auto simp: repository_def)
  then show "if category_of cmd = ''critic''
       then (\<exists>p d r. res = JObj [(''personality'', p), (''domain'', d), (''report'', JStr r)])
       else (\<exists>prs. res = JObj prs \<and> map fst prs = standard_phases \<and>
                   reports_success (obj_get prs ''workflow''))"
  proof cases
    case message
    from sup message have "command ?c \<in> set [''message:new'', ''message:read'']"
      by (simp add: isSupportedCommand_def MessageWorkflow_def extends_def)
    from workflow_only_success[OF message_handler_success ex[unfolded message(2) MessageWorkflow_def] this]
    show ?thesis using message by simp
  next
    case system
    from sup system have "command ?c \<in> set [''system:on'', ''system:health'', ''system:manifest'']"
      by (simp add: isSupportedCommand_def SystemWorkflow_def extends_def)
    from workflow_only_success[OF system_handler_success ex[unfolded system(2) SystemWorkflow_def] this]
    show ?thesis using system by simp
  next
    case agent
    from sup agent have "command ?c \<in> set [''agent:switch'', ''agent:status'', ''agent:list'', ''agent:reset'']"
      by (simp add: isSupportedCommand_def AgentWorkflow_def extends_def)
    from workflow_only_success[OF agent_handler_success ex[unfolded agent(2) AgentWorkflow_def] this]
    show ?thesis using agent by simp
  next
    case meta
    from sup meta have "command ?c \<in> set [''meta:context'']"
      by (simp add: isSupportedCommand_def MetaWorkflow_def extends_def)
    from workflow_only_success[OF meta_handler_success ex[unfolded meta(2) MetaWorkflow_def] this]
    show ?thesis using meta by simp
  next
    case critic
    from critic_result[OF ex[unfolded critic(2)]] critic(1) show ?thesis by simp
  qed
next
  show "executeCommand_008 rt (Orchestrator_008 (repository rt)) ''message:new''
       [(''message'', JStr ''hi''), (''to'', JStr ''discussion-moderator'')] w0 =
     (standard_phases,
      Inr (JObj
        [(''initialization'', JObj [(''status'', JStr ''initialized'')]),
         (''parameters'',
            JObj [(''status'', JStr ''parameters_processed''),
                  (''params'', JObj [(''message'', JStr ''hi''),
                                     (''to'', JStr ''discussion-moderator'')])]),
         (''workflow'',
            JObj [(''success'', JBool True),
                  (''action'', JStr ''created''),
                  (''message'',
                     JObj [(''content'', JStr ''hi''),
                           (''to'', JStr ''discussion-moderator''),
                           (''timestamp'', JStr (now w0)),
                           (''formattedContent'',
                              JStr ''Message: hi (to: discussion-moderator)'')])]),
         (''validation'', JObj [(''status'', JStr ''validated'')]),
         (''output'', JObj [(''status'', JStr ''output_formatted'')])]),
      w0)"
    by (simp add: executeCommand_008_def global_parameters_def extract_save_def category_examples
        Orchestrator_008_def initialize_008_def repository_def isSupportedCommand_def
        MessageWorkflow_def execute_workflow_only parameters_check_def
        message_executeWorkflowPhase_def message_handleNewMessage_def returns_def
        js_or_def obj_set_def obj_get_def)
qed

lemmas message_new_simps =
  executeCommand_008_def executeCommand_def global_parameters_def extract_save_def category_examples
  Orchestrator_008_def initialize_008_def Orchestrator_core_def initialize_core_def
  repository_def isSupportedCommand_def
  MessageWorkflow_def execute_workflow_only parameters_check_def
  message_executeWorkflowPhase_def message_handleNewMessage_def returns_def
  js_or_def obj_set_def obj_get_def new_context_def dispatch_context_def

text \<open>The theorem at work on \<open>meta:context --list\<close> in a fresh state.\<close>

theorem dispatch_result_witness:
  "\<exists>prs. fst (snd (executeCommand_008 example_runtime (Orchestrator_008 (repository example_runtime))
                      ''meta:context'' [(''list'', JBool True)] example_world)) = Inr (JObj prs) \<and>
         map fst prs = standard_phases \<and> reports_success (obj_get prs ''workflow'')"
proof -
  let ?res = "JObj
          [(''initialization'', JObj [(''status'', JStr ''initialized'')]),
           (''parameters'',
              JObj [(''status'', JStr ''parameters_processed''),
                    (''params'', JObj [(''list'', JBool True)])]),
           (''workflow'',
              JObj [(''success'', JBool True),
                    (''action'', JStr ''context_listed''),
                    (''context'', JArr [])]),
           (''validation'', JObj [(''status'', JStr ''validated'')]),
           (''output'', JObj [(''status'', JStr ''output_formatted'')])]"
  have run:
    "executeCommand_008 example_runtime (Orchestrator_008 (repository example_runtime))
       ''meta:context'' [(''list'', JBool True)] example_world
     = (standard_phases, Inr ?res, example_world)"
    by (simp add: executeCommand_008_def global_parameters_def extract_save_def category_examples
        Orchestrator_008_def initialize_008_def repository_def isSupportedCommand_def
        MetaWorkflow_def execute_workflow_only parameters_check_def
        meta_executeWorkflowPhase_def meta_handleContext_def returns_def
        js_or_def obj_set_def obj_get_def dispatch_context_def new_context_def
        example_world_def fresh_world_def)
  from dispatch_result[of example_runtime "''meta:context''" "[(''list'', JBool True)]"
      example_world standard_phases ?res example_world] run
  have "\<exists>prs. ?res = JObj prs \<and> map fst prs = standard_phases \<and>
              reports_success (obj_get prs ''workflow'')"
    by (simp add: category_examples)
  with run show ?thesis by simp
qed

text \<open>
  The claim as it was stated: the scenario does not resolve to
  \<open>{success, action, message: {content, to}}\<close>; it resolves to the phase results
  (shown for core/orchestrator.js, the same through part_008).
\<close>

theorem dispatch_result_counterexample:
  "fst (snd (executeCommand_008 example_runtime (Orchestrator_008 (repository example_runtime))
               ''message:new'' [(''message'', JStr ''hi''), (''to'', JStr ''discussion-moderator'')]
               example_world))
     \<noteq> Inr (JObj [(''success'', JBool True), (''action'', JStr ''created''),
                  (''message'', JObj [(''content'', JStr ''hi''),
                                      (''to'', JStr ''discussion-moderator'')])]) \<and>
   fst (snd (executeCommand (Orchestrator_core (repository example_runtime))
               ''message:new'' [(''message'', JStr ''hi''), (''to'', JStr ''discussion-moderator'')]
               example_world))
     = Inr (JObj
        [(''initialization'', JObj [(''status'', JStr ''initialized'')]),
         (''parameters'',
            JObj [(''status'', JStr ''parameters_processed''),
                  (''params'', JObj [(''message'', JStr ''hi''),
                                     (''to'', JStr ''discussion-moderator'')])]),
         (''workflow'',
            JObj [(''success'', JBool True),
                  (''action'', JStr ''created''),
                  (''message'',
                     JObj [(''content'', JStr ''hi''),
                           (''to'', JStr ''discussion-moderator''),
                           (''timestamp'', JStr ''2025-11-16T10:00:00.000Z''),
                           (''formattedContent'',
                              JStr ''Message: hi (to: discussion-moderator)'')])]),
         (''validation'', JObj [(''status'', JStr ''validated'')]),
         (''output'', JObj [(''status'', JStr ''output_formatted'')])])"
  by (simp add: message_new_simps example_world_def fresh_world_def)

section \<open>A message without a body\<close>

text \<open>
  Claim C7, on the code of hooks/workflows/message.js: \<open>message:new\<close> with no
  \<open>message\<close> in its parameters runs all five phases and resolves. The workflow phase
  throws nothing; the message it builds has the content undefined.
\<close>

theorem message_new_without_body:
  "executeCommand (Orchestrator_core (repository rt)) ''message:new''
       [(''to'', JStr ''discussion-moderator'')] w =
     (standard_phases,
      Inr (JObj
        [(''initialization'', JObj [(''status'', JStr ''initialized'')]),
         (''parameters'',
            JObj [(''status'', JStr ''parameters_processed''),
                  (''params'', JObj [(''to'', JStr ''discussion-moderator'')])]),
         (''workflow'',
            JObj [(''success'', JBool True),
                  (''action'', JStr ''created''),
                  (''message'',
                     JObj [(''content'', JUndefined),
                           (''to'', JStr ''discussion-moderator''),
                           (''timestamp'', JStr (now w)),
                           (''formattedContent'',
                              JStr ''Message: undefined (to: discussion-moderator)'')])]),
         (''validation'', JObj [(''status'', JStr ''validated'')]),
         (''output'', JObj [(''status'', JStr ''output_formatted'')])]),
      w)"
  by (simp add: message_new_simps)

text \<open>
  The copy of the class in part_009 makes the check the claim describes: with no
  message in the parameters and no positional arguments, its workflow phase throws,
  and the state is left as it was.
\<close>

lemma message009_requires_body:
  assumes "command ctx = ''message:new''"
    and "\<not> truthy (obj_get (params ctx) ''message'')"
    and "\<not> truthy (args ctx)"
    and "parameters_check rt ctx = None"
  shows "fst (execute (MessageWorkflow_009 rt) ctx w) = [''initialization'', ''parameters'', ''workflow'']"
    and "fst (snd (execute (MessageWorkflow_009 rt) ctx w)) = Inl (Error message_required)"
    and "snd (snd (snd (execute (MessageWorkflow_009 rt) ctx w))) = w"
  using assms
  by (simp_all add: MessageWorkflow_009_def execute_def executePipeline_def extends_def
      BaseWorkflow_def standard_phases_def executePhase_def methodName_phases
      base_executeParametersPhase_def base_executeInitializationPhase_def
      message009_executeWorkflowPhase_def message009_handleNewMessage_def
      returns_def throws_def obj_set_def Let_def)

section \<open>The checks of the parameters phase\<close>

text \<open>
  In the parameters phase of BaseWorkflow a context of more than 1000 characters is
  refused and one of 1000 or fewer is let through; a save path that is not absolute
  or does not end in \<open>.json\<close> is refused. A class that inherits the phase stops there,
  before its workflow phase.
\<close>

lemma long_text [simp]:
  "replicate 1001 c \<noteq> []" "length (replicate 1001 c) = 1001"
  by simp_all

lemma parameters_check_context:
  "save ctx = JUndefined \<Longrightarrow> context' ctx = JStr s \<Longrightarrow>
     parameters_check rt ctx =
       (if length s > 1000 then Some (Error ''Context must be less than 1000 characters'')
        else None)"
  by (auto simp: parameters_check_def)

lemma parameters_check_save:
  "save ctx = JStr p \<Longrightarrow> p \<noteq> [] \<Longrightarrow> \<not> startsWith p ''/'' \<or> \<not> endsWith p ''.json'' \<Longrightarrow>
     parameters_check rt ctx = Some (Error ''Save path must be absolute and end with .json'')"
  by (auto simp: parameters_check_def)

lemma parameters_phase_enforced:
  "parameters_check rt ctx = Some e \<Longrightarrow>
     fst (execute (extends (BaseWorkflow rt) cmds [(''executeWorkflowPhase'', h)]) ctx w)
       = [''initialization'', ''parameters''] \<and>
     fst (snd (execute (extends (BaseWorkflow rt) cmds [(''executeWorkflowPhase'', h)]) ctx w)) = Inl e"
  by (simp add: execute_workflow_only)

lemmas critic_simps =
  CriticWorkflow_def execute_def executePipeline_def extends_def BaseWorkflow_def
  standard_phases_def executePhase_def methodName_phases
  critic_executeInitializationPhase_def critic_executeParametersPhase_def
  critic_defaults_def critic_focus_def
  critic_executeWorkflowPhase_def critic_executeValidationPhase_def
  critic_executeOutputPhase_def formatCritiqueReport_def generateContent_def
  validateWithRules_def readFile_stub_def text_section_def list_section_def
  returns_def throws_def obj_set_def obj_get_def phaseResults_value_def js_or_def Let_def

text \<open>
  Claim C4, on the code. CriticWorkflow defines a parameters phase of its own, which
  does not call the inherited one: for \<open>critic:harsh\<close> a context of 1001 characters
  passes, all five phases run and the dispatch resolves. The same context on
  \<open>message:read\<close> is refused in the parameters phase (after the Orchestrator has
  stored it).
\<close>

theorem critic_skips_parameter_checks:
  "fst (executeCommand_008 rt (Orchestrator_008 (repository rt)) ''critic:harsh''
          [(''source'', JStr ''draft''), (''context'', JStr (replicate 1001 CHR ''x''))] w)
     = standard_phases \<and>
   \<not> isl (fst (snd (executeCommand_008 rt (Orchestrator_008 (repository rt)) ''critic:harsh''
          [(''source'', JStr ''draft''), (''context'', JStr (replicate 1001 CHR ''x''))] w))) \<and>
   executeCommand_008 rt (Orchestrator_008 (repository rt)) ''message:read''
          [(''context'', JStr (replicate 1001 CHR ''x''))] w
     = ([''initialization'', ''parameters''],
        Inl (Error ''Context must be less than 1000 characters''),
        w \<lparr> store := store w @
               [context_entry ''message:read'' (JStr (replicate 1001 CHR ''x'')) (now w)] \<rparr>)"
proof (intro conjI)
  let ?long = "JStr (replicate 1001 CHR ''x'')"
  let ?run = "executeCommand_008 rt (Orchestrator_008 (repository rt)) ''critic:harsh''
          [(''source'', JStr ''draft''), (''context'', ?long)] w"
  have critic: "fst ?run = standard_phases \<and> \<not> isl (fst (snd ?run))"
    by (simp add: executeCommand_008_def global_parameters_def extract_save_def obj_delete_def
        category_examples Orchestrator_008_def initialize_008_def repository_def
        isSupportedCommand_def dispatch_context_def new_context_def critic_simps
        split: sum.splits)
  from critic show "fst ?run = standard_phases" by simp
  from critic show "\<not> isl (fst (snd ?run))" by simp
  show "executeCommand_008 rt (Orchestrator_008 (repository rt)) ''message:read''
          [(''context'', ?long)] w
     = ([''initialization'', ''parameters''],
        Inl (Error ''Context must be less than 1000 characters''),
        w \<lparr> store := store w @ [context_entry ''message:read'' ?long (now w)] \<rparr>)"
    by (simp add: executeCommand_008_def global_parameters_def extract_save_def obj_delete_def
        category_examples Orchestrator_008_def initialize_008_def repository_def
        isSupportedCommand_def dispatch_context_def new_context_def parameters_check_def
        MessageWorkflow_def execute_workflow_only obj_get_def)
qed

text \<open>
  The save path goes unchecked in the same way: \<open>notes.txt\<close> is refused for
  \<open>message:read\<close>, and for \<open>critic:harsh\<close> the trace is written to it.
\<close>

lemma critic_saves_unchecked:
  "executeCommand_008 example_runtime (Orchestrator_008 (repository example_runtime)) ''message:read''
      [(''save'', JStr ''notes.txt'')] example_world
     = ([''initialization'', ''parameters''],
        Inl (Error ''Save path must be absolute and end with .json''), example_world) \<and>
   fst (executeCommand_008 example_runtime (Orchestrator_008 (repository example_runtime)) ''critic:harsh''
      [(''source'', JStr ''draft''), (''save'', JStr ''notes.txt'')] example_world)
     = standard_phases \<and>
   map fst (files (fs (snd (snd (executeCommand_008 example_runtime
      (Orchestrator_008 (repository example_runtime))
      ''critic:harsh'' [(''source'', JStr ''draft''), (''save'', JStr ''notes.txt'')] example_world)))))
     = [''notes.txt'']"
proof (intro conjI)
  show "executeCommand_008 example_runtime (Orchestrator_008 (repository example_runtime)) ''message:read''
      [(''save'', JStr ''notes.txt'')] example_world
     = ([''initialization'', ''parameters''],
        Inl (Error ''Save path must be absolute and end with .json''), example_world)"
    by (simp add: executeCommand_008_def global_parameters_def extract_save_def obj_delete_def
        category_examples Orchestrator_008_def initialize_008_def repository_def
        isSupportedCommand_def dispatch_context_def new_context_def parameters_check_def
        MessageWorkflow_def execute_workflow_only obj_get_def startsWith_def)
  let ?run = "executeCommand_008 example_runtime (Orchestrator_008 (repository example_runtime))
      ''critic:harsh'' [(''source'', JStr ''draft''), (''save'', JStr ''notes.txt'')] example_world"
  have "fst ?run = standard_phases \<and> map fst (files (fs (snd (snd ?run)))) = [''notes.txt'']"
    by (simp add: executeCommand_008_def global_parameters_def extract_save_def obj_delete_def
        category_examples Orchestrator_008_def initialize_008_def repository_def
        isSupportedCommand_def dispatch_context_def new_context_def critic_simps
        savePipelineData_def path_dirname_def existsSync_def writeFileSync_def is_directory_def
        example_runtime_def example_world_def fresh_world_def pipeline_record_def
        split: sum.splits)
  then show "fst ?run = standard_phases"
    and "map fst (files (fs (snd (snd ?run)))) = [''notes.txt'']" by simp_all
qed

section \<open>What \<open>execute\<close> returns\<close>








section \<open>The Global Context Store\<close>

text \<open>
  A workflow whose handlers all leave the shared state alone leaves it alone as a
  whole. The critic and the MessageWorkflow of part_009 are such workflows.
\<close>

lemma runPhases_world:
  assumes same: "\<And>n h c w. methods wfl n = Some h \<Longrightarrow> snd (snd (h c w)) = w"
  shows "snd (snd (snd (runPhases wfl ps ctx w))) = w"
proof (induction ps arbitrary: ctx)
  case Nil
  show ?case by simp
next
  case (Cons p ps)
  have step: "snd (snd (executePhase wfl p ctx w)) = w"
    using same by (auto simp: executePhase_def returns_def split: option.splits)
  obtain out c2 w2 where e: "executePhase wfl p ctx w = (out, c2, w2)"
    by (cases "executePhase wfl p ctx w") auto
  with step have w2: "w2 = w" by simp
  show ?case
  proof (cases out)
    case (Inl err)
    with e w2 show ?thesis by simp
  next
    case (Inr r)
    show ?thesis
    proof (cases "phaseResults c2")
      case None
      with e w2 Inr show ?thesis by simp
    next
      case (Some prs)
      from Cons.IH[of "c2 \<lparr> phaseResults := Some (obj_set prs p r) \<rparr>"] e w2 Inr Some
      show ?thesis by (auto split: prod.splits)
    qed
  qed
qed

lemma execute_world:
  assumes same: "\<And>n h c w. methods wfl n = Some h \<Longrightarrow> snd (snd (h c w)) = w"
  shows "snd (snd (snd (execute wfl ctx w))) = w"
proof -
  have "snd (snd (snd (runPhases wfl (phases wfl) (ctx \<lparr> phaseResults := Some [] \<rparr>) w))) = w"
    by (rule runPhases_world) (rule same)
  then show ?thesis
    by (auto simp: execute_def executePipeline_def split: prod.splits option.splits)
qed

lemma base_handlers_world:
  "snd (snd (base_executeInitializationPhase c w)) = w"
  "snd (snd (base_executeParametersPhase rt c w)) = w"
  "snd (snd (base_executeWorkflowPhase c w)) = w"
  "snd (snd (base_executeValidationPhase c w)) = w"
  "snd (snd (base_executeOutputPhase c w)) = w"
  by (simp_all add: base_executeInitializationPhase_def base_executeParametersPhase_def
      base_executeWorkflowPhase_def base_executeValidationPhase_def base_executeOutputPhase_def
      returns_def throws_def split: option.splits)

lemma critic_handlers_world:
  "snd (snd (critic_executeInitializationPhase c w)) = w"
  "snd (snd (critic_executeWorkflowPhase c w)) = w"
  "snd (snd (critic_executeValidationPhase c w)) = w"
  "snd (snd (critic_executeOutputPhase rt c w)) = w"
  by (simp_all add: critic_executeInitializationPhase_def 
        critic_executeWorkflowPhase_def critic_executeValidationPhase_def
        critic_executeOutputPhase_def validateWithRules_def obj_get_def
        returns_def throws_def Let_def split: sum.splits)


lemma critic_parameters_world:
  "snd (snd (critic_executeParametersPhase c w)) = w"
  by (simp add: critic_executeParametersPhase_def returns_def throws_def
      split: sum.splits jsval.splits)

lemma critic_world: "snd (snd (snd (execute (CriticWorkflow rt) ctx w))) = w"
proof (rule execute_world)
  fix n h c w
  assume "methods (CriticWorkflow rt) n = Some h"
  then show "snd (snd (h c w)) = w"
    by (auto simp: CriticWorkflow_def extends_def map_add_Some_iff BaseWorkflow_def
        base_handlers_world critic_handlers_world critic_parameters_world split: if_splits)
qed

lemma message_world: "snd (snd (message_executeWorkflowPhase rt c w)) = w"
  by (simp add: message_executeWorkflowPhase_def message_handleNewMessage_def
      message_handleReadMessages_def returns_def Let_def)

lemma message009_handlers_world:
  "snd (snd (message009_executeWorkflowPhase rt c w)) = w"
  "snd (snd (message009_executeValidationPhase c w)) = w"
  "snd (snd (message009_executeOutputPhase c w)) = w"
  by (simp_all add: message009_executeWorkflowPhase_def message009_handleNewMessage_def
        message_handleReadMessages_def
        message009_executeValidationPhase_def message009_executeOutputPhase_def
        validateWithRules_def obj_get_def
        returns_def throws_def Let_def split: jsval.splits)

lemma message009_world: "snd (snd (snd (execute (MessageWorkflow_009 rt) ctx w))) = w"
proof (rule execute_world)
  fix n h c w
  assume "methods (MessageWorkflow_009 rt) n = Some h"
  then show "snd (snd (h c w)) = w"
    by (auto simp: MessageWorkflow_009_def extends_def map_add_Some_iff BaseWorkflow_def
        base_handlers_world message009_handlers_world split: if_splits)
qed

text \<open>
  For a class that overrides the workflow phase alone, the state after the run is the
  state its handler leaves. The message and system handlers leave it as it was, the
  agent handlers change the settings only, and the meta handler appends one entry to the
  store, leaves it, or empties it.
\<close>

lemma execute_workflow_only_world:
  "snd (snd (snd (execute (extends (BaseWorkflow rt) cmds [(''executeWorkflowPhase'', h)]) ctx w))) =
     (case parameters_check rt ctx of
        Some e \<Rightarrow> w
      | None \<Rightarrow> snd (snd (h (ctx \<lparr> phaseResults := Some
                     [(''initialization'', JObj [(''status'', JStr ''initialized'')]),
                      (''parameters'', JObj [(''status'', JStr ''parameters_processed''),
                                             (''params'', JObj (params ctx))])] \<rparr>) w)))"
  by (simp add: execute_workflow_only split: option.splits prod.splits sum.splits)

lemma system_world: "snd (snd (system_executeWorkflowPhase c w)) = w"
  by (simp add: system_executeWorkflowPhase_def system_handleSystemOn_def
      system_handleSystemHealth_def system_handleSystemManifest_def returns_def Let_def)

lemma agent_store: "store (snd (snd (agent_executeWorkflowPhase c w))) = store w"
  by (simp add: agent_executeWorkflowPhase_def agent_handleSwitch_def agent_handleStatus_def
      agent_handleList_def agent_handleReset_def returns_def throws_def Let_def
      split: sum.splits)

lemma meta_store:
  "prefix (store w) (store (snd (snd (meta_executeWorkflowPhase c w)))) \<or>
   (store (snd (snd (meta_executeWorkflowPhase c w))) = [] \<and> command c = ''meta:context'' \<and>
    truthy (obj_get (params c) ''clear''))"
  by (simp add: meta_executeWorkflowPhase_def meta_handleContext_def returns_def throws_def)

text \<open>The store after a dispatch of part_008, whatever the outcome.\<close>

lemma executeCommand_008_store:
  "store (snd (snd (executeCommand_008 rt wfs cmd ps w))) =
     (case global_parameters cmd ps w of
        (gp, ps2, w0) \<Rightarrow>
          (case wfs (category_of cmd) of
             None \<Rightarrow> store w0
           | Some wfl \<Rightarrow>
               if \<not> isSupportedCommand wfl cmd then store w0
               else store (snd (snd (snd (execute wfl (dispatch_context cmd ps2 gp w0) w0))))))"
  by (auto simp: executeCommand_008_def split: prod.splits option.splits sum.splits)

lemma global_parameters_params:
  "global_parameters cmd ps w = (gp, ps2, w0) \<Longrightarrow>
     k \<noteq> ''save'' \<Longrightarrow> k \<noteq> ''context'' \<Longrightarrow> obj_get ps2 k = obj_get ps k"
  by (auto simp: global_parameters_def extract_save_def obj_get_delete_other
      split: if_splits)

text \<open>
  Claim C6, as amended. Through the Orchestrator of part_008 with the repository's
  classes (either copy of MessageWorkflow), a dispatch, whether it resolves or
  rejects, leaves the Global Context Store in one of two shapes. Either the store as
  it was is a prefix of the store after: every entry is still there, in place and
  unchanged, with entries only appended behind. Or the store is empty, and then the
  command was \<open>meta:context\<close> with a truthy \<open>clear\<close>: entries go only in that bulk
  clear. The state before is arbitrary, so this holds along any sequence of
  dispatches.
\<close>

theorem store_grows_or_clears:
  assumes m: "m = repository rt \<or> m = repository_009 rt"
  shows "prefix (store w) (store (snd (snd (executeCommand_008 rt (Orchestrator_008 m) cmd ps w)))) \<or>
         (store (snd (snd (executeCommand_008 rt (Orchestrator_008 m) cmd ps w))) = [] \<and>
          cmd = ''meta:context'' \<and> truthy (obj_get ps ''clear''))"
proof -
  let ?after = "store (snd (snd (executeCommand_008 rt (Orchestrator_008 m) cmd ps w)))"
  obtain gp ps2 w0 where g: "global_parameters cmd ps w = (gp, ps2, w0)"
    by (cases "global_parameters cmd ps w") auto
  have w0: "prefix (store w) (store w0)"
    using global_parameters_world[of cmd ps w] g by simp
  let ?c = "dispatch_context cmd ps2 gp w0"
  show ?thesis
  proof (cases "Orchestrator_008 m (category_of cmd)")
    case None
    with g w0 show ?thesis by (simp add: executeCommand_008_store)
  next
    case (Some wfl)
    show ?thesis
    proof (cases "isSupportedCommand wfl cmd")
      case False
      with Some g w0 show ?thesis by (simp add: executeCommand_008_store)
    next
      case True
      with Some g have after: "?after = store (snd (snd (snd (execute wfl ?c w0))))"
        by (simp add: executeCommand_008_store)
      from registry_008[OF Some] m
      consider (message) "wfl = MessageWorkflow rt" | (message009) "wfl = MessageWorkflow_009 rt"
        | (system) "wfl = SystemWorkflow rt" | (agent) "wfl = AgentWorkflow rt"
        | (meta) "wfl = MetaWorkflow rt" | (critic) "wfl = CriticWorkflow rt"
        by (auto simp: repository_def repository_009_def)
      then show ?thesis
      proof cases
        case message
        then have "?after = store w0"
          unfolding after
          by (simp add: MessageWorkflow_def execute_workflow_only_world message_world
              split: option.splits)
        with w0 show ?thesis by simp
      next
        case message009
        then have "?after = store w0" unfolding after by (simp add: message009_world)
        with w0 show ?thesis by simp
      next
        case system
        then have "?after = store w0"
          unfolding after
          by (simp add: SystemWorkflow_def execute_workflow_only_world system_world
              split: option.splits)
        with w0 show ?thesis by simp
      next
        case agent
        then have "?after = store w0"
          unfolding after
          by (simp add: AgentWorkflow_def execute_workflow_only_world agent_store
              split: option.splits)
        with w0 show ?thesis by simp
      next
        case critic
        then have "?after = store w0" unfolding after by (simp add: critic_world)
        with w0 show ?thesis by simp
      next
        case meta
        with True have cmd: "cmd = ''meta:context''"
          by (simp add: isSupportedCommand_def MetaWorkflow_def)
        let ?c' = "?c \<lparr> phaseResults := Some
                     [(''initialization'', JObj [(''status'', JStr ''initialized'')]),
                      (''parameters'', JObj [(''status'', JStr ''parameters_processed''),
                                             (''params'', JObj (params ?c))])] \<rparr>"
        show ?thesis
        proof (cases "parameters_check rt ?c")
          case (Some e)
          with meta have "?after = store w0"
            unfolding after by (simp add: MetaWorkflow_def execute_workflow_only_world)
          with w0 show ?thesis by simp
        next
          case None
          with meta have a: "?after = store (snd (snd (meta_executeWorkflowPhase ?c' w0)))"
            unfolding after by (simp add: MetaWorkflow_def execute_workflow_only_world)
          from meta_store[of w0 ?c']
          show ?thesis
          proof
            assume "prefix (store w0) (store (snd (snd (meta_executeWorkflowPhase ?c' w0))))"
            with w0 a show ?thesis by (metis prefix_order.order_trans)
          next
            assume "store (snd (snd (meta_executeWorkflowPhase ?c' w0))) = [] \<and>
                    command ?c' = ''meta:context'' \<and> truthy (obj_get (params ?c') ''clear'')"
            with a cmd global_parameters_params[OF g, of "''clear''"] show ?thesis by simp
          qed
        qed
      qed
    qed
  qed
qed

text \<open>
  The theorem at work on a store with one entry: \<open>meta:context --add\<close> keeps it in
  front, \<open>meta:context --clear\<close> empties the store.
\<close>

theorem store_grows_or_clears_witness:
  "prefix [context_entry ''message:new'' (JStr ''earlier'') ''2025-11-16T09:00:00.000Z'']
     (store (snd (snd (executeCommand_008 example_runtime
        (Orchestrator_008 (repository example_runtime))
        ''meta:context'' [(''add'', JStr ''note'')]
        (example_world \<lparr> store :=
           [context_entry ''message:new'' (JStr ''earlier'') ''2025-11-16T09:00:00.000Z''] \<rparr>))))) \<and>
   store (snd (snd (executeCommand_008 example_runtime
        (Orchestrator_008 (repository example_runtime))
        ''meta:context'' [(''clear'', JBool True)]
        (example_world \<lparr> store :=
           [context_entry ''message:new'' (JStr ''earlier'') ''2025-11-16T09:00:00.000Z''] \<rparr>))))
     = []"
proof -
  let ?w = "example_world \<lparr> store :=
           [context_entry ''message:new'' (JStr ''earlier'') ''2025-11-16T09:00:00.000Z''] \<rparr>"
  have m: "repository example_runtime = repository example_runtime \<or>
           repository example_runtime = repository_009 example_runtime" by simp
  from store_grows_or_clears[OF m, of ?w "''meta:context''" "[(''add'', JStr ''note'')]"]
  have "prefix (store ?w) (store (snd (snd (executeCommand_008 example_runtime
        (Orchestrator_008 (repository example_runtime))
        ''meta:context'' [(''add'', JStr ''note'')] ?w))))"
    by (simp add: obj_get_def)
  moreover
  have "store (snd (snd (executeCommand_008 example_runtime
        (Orchestrator_008 (repository example_runtime))
        ''meta:context'' [(''clear'', JBool True)] ?w))) = []"
    by (simp add: executeCommand_008_store global_parameters_def extract_save_def category_examples
        Orchestrator_008_def initialize_008_def repository_def isSupportedCommand_def
        MetaWorkflow_def execute_workflow_only_world parameters_check_def dispatch_context_def
        new_context_def meta_executeWorkflowPhase_def meta_handleContext_def returns_def
        obj_get_def)
  ultimately show ?thesis by simp
qed

text \<open>
  The claim as it was stated bounds the content by 1000 characters. An entry of 1001
  characters gets into the store through \<open>meta:context --add\<close>, which checks no length,
  and through the \<open>context\<close> flag of a command that is then refused for it.
\<close>

theorem store_grows_or_clears_counterexample:
  "store (snd (snd (executeCommand_008 example_runtime
        (Orchestrator_008 (repository example_runtime))
        ''meta:context'' [(''add'', JStr (replicate 1001 CHR ''a''))] example_world)))
     = [JObj [(''command'', JStr ''meta:context''),
              (''content'', JStr (replicate 1001 CHR ''a'')),
              (''timestamp'', JStr ''2025-11-16T10:00:00.000Z'')]] \<and>
   store (snd (snd (executeCommand_008 example_runtime
        (Orchestrator_008 (repository example_runtime))
        ''message:read'' [(''context'', JStr (replicate 1001 CHR ''a''))] example_world)))
     = [JObj [(''command'', JStr ''message:read''),
              (''content'', JStr (replicate 1001 CHR ''a'')),
              (''timestamp'', JStr ''2025-11-16T10:00:00.000Z'')]] \<and>
   1000 < length (replicate 1001 CHR ''a'')"
  by (simp add: executeCommand_008_store global_parameters_def extract_save_def category_examples
        Orchestrator_008_def initialize_008_def repository_def isSupportedCommand_def
        MetaWorkflow_def MessageWorkflow_def execute_workflow_only_world message_world
        parameters_check_def dispatch_context_def
        new_context_def meta_executeWorkflowPhase_def meta_handleContext_def returns_def
        obj_get_def obj_delete_def context_entry_def example_world_def fresh_world_def)

section \<open>The trace file\<close>














end
